theory Spec2Isabelle
  imports Main
begin

section \<open>JavaScript values\<close>

text \<open>
  The gas price service (\<^verbatim>\<open>src/services/gasPrice.js\<close>) works on JavaScript values:
  what the parsed oracle response holds (numbers as a rule), strings from \<^verbatim>\<open>process.env\<close> and
  from \<^verbatim>\<open>Web3Utils.toWei\<close>, \<^verbatim>\<open>null\<close> for the two module variables before the first update.

  A finite number is modelled by the decimal \<open>m * 10 ^ e\<close> that
  \<^verbatim>\<open>Number.prototype.toString\<close> prints for it, so that comparison and printing are exact;
  \<^verbatim>\<open>NaN\<close> and the two infinities are values of their own. The two zeros are identified
  (both are falsy, both print as \<^verbatim>\<open>0\<close>).
\<close>

datatype jsnum = NaN | PosInf | NegInf | Fin int int

datatype jsval = Undefined | Null | Bool bool | Num jsnum | Str string

datatype jserror = Error string | TypeError string

fun message :: "jserror \<Rightarrow> string" where
  "message (Error m) = m"
| "message (TypeError m) = m"

fun num_truthy :: "jsnum \<Rightarrow> bool" where
  "num_truthy NaN = False"
| "num_truthy (Fin m e) = (m \<noteq> 0)"
| "num_truthy PosInf = True"
| "num_truthy NegInf = True"

fun truthy :: "jsval \<Rightarrow> bool" where
  "truthy Undefined = False"
| "truthy Null = False"
| "truthy (Bool b) = b"
| "truthy (Num n) = num_truthy n"
| "truthy (Str s) = (s \<noteq> [])"

text \<open>A variable is unset when it holds \<^verbatim>\<open>undefined\<close> or \<^verbatim>\<open>null\<close>.\<close>

definition unset :: "jsval \<Rightarrow> bool" where
  "unset v = (v = Undefined \<or> v = Null)"

text \<open>\<^verbatim>\<open>a || b\<close>: the left operand when it is truthy, the right one otherwise.\<close>

definition js_or :: "jsval \<Rightarrow> jsval \<Rightarrow> jsval" where
  "js_or a b = (if truthy a then a else b)"

text \<open>
  \<^verbatim>\<open>a < b\<close> on numbers: false as soon as one side is \<^verbatim>\<open>NaN\<close>; two finite numbers are
  compared after scaling both to the smaller exponent.
\<close>

definition fin_lt :: "int \<Rightarrow> int \<Rightarrow> int \<Rightarrow> int \<Rightarrow> bool" where
  "fin_lt m e m' e' =
     (m * 10 ^ nat (e - min e e') < m' * 10 ^ nat (e' - min e e'))"

fun num_lt :: "jsnum \<Rightarrow> jsnum \<Rightarrow> bool" where
  "num_lt NaN y = False"
| "num_lt x NaN = False"
| "num_lt PosInf y = False"
| "num_lt x NegInf = False"
| "num_lt NegInf y = True"
| "num_lt x PosInf = True"
| "num_lt (Fin m e) (Fin m' e') = fin_lt m e m' e'"

text \<open>\<^verbatim>\<open>a > b\<close> is \<^verbatim>\<open>b < a\<close>; \<^verbatim>\<open>a <= b\<close> is "not \<^verbatim>\<open>b < a\<close>" unless a \<^verbatim>\<open>NaN\<close> is involved.\<close>

definition num_gt :: "jsnum \<Rightarrow> jsnum \<Rightarrow> bool" where
  "num_gt x y = num_lt y x"

definition num_le :: "jsnum \<Rightarrow> jsnum \<Rightarrow> bool" where
  "num_le x y = (x \<noteq> NaN \<and> y \<noteq> NaN \<and> \<not> num_lt y x)"

subsection \<open>Decimal digits\<close>

definition digit_char :: "nat \<Rightarrow> char" where
  "digit_char d = ''0123456789'' ! d"

definition is_digit :: "char \<Rightarrow> bool" where
  "is_digit c = (c \<in> set ''0123456789'')"

text \<open>The value of a digit is its position in \<^verbatim>\<open>0123456789\<close>.\<close>

definition digit_val :: "char \<Rightarrow> nat" where
  "digit_val c = (if is_digit c then length (takeWhile (\<lambda>d. d \<noteq> c) ''0123456789'') else 0)"

function digits_of :: "nat \<Rightarrow> string" where
  "digits_of n = (if n < 10 then [digit_char n] else digits_of (n div 10) @ [digit_char (n mod 10)])"
  by pat_completeness auto
termination
  by (relation "measure (\<lambda>n. n)") auto

declare digits_of.simps [simp del]

text \<open>Reading a string of decimal digits, as \<^verbatim>\<open>new BN(s)\<close> does.\<close>

definition parse_nat :: "string \<Rightarrow> nat" where
  "parse_nat s = foldl (\<lambda>a c. 10 * a + digit_val c) 0 s"

definition int_toString :: "int \<Rightarrow> string" where
  "int_toString i = (if i < 0 then ''-'' @ digits_of (nat (- i)) else digits_of (nat i))"

subsection \<open>\<^verbatim>\<open>Number.prototype.toString\<close>\<close>

text \<open>
  ECMAScript prints a finite non-zero number from the shortest digit string \<open>s\<close> (\<open>k\<close>
  digits, no trailing zero) and the exponent \<open>n\<close> with value \<open>s * 10 ^ (n - k)\<close>:
  plain digits when \<open>k \<le> n \<le> 21\<close>, a decimal point inside the digits when
  \<open>0 < n \<le> 21\<close>, leading \<^verbatim>\<open>0.00\<close> when \<open>-6 < n \<le> 0\<close>, and exponent notation otherwise.
\<close>

function strip10 :: "nat \<Rightarrow> int \<Rightarrow> nat \<times> int" where
  "strip10 s e = (if s \<noteq> 0 \<and> s mod 10 = 0 then strip10 (s div 10) (e + 1) else (s, e))"
  by pat_completeness auto
termination
  by (relation "measure (\<lambda>(s, e). s)") auto

declare strip10.simps [simp del]

definition pos_toString :: "nat \<Rightarrow> int \<Rightarrow> string" where
  "pos_toString s0 e0 =
     (let (s, e) = strip10 s0 e0;
          ds = digits_of s;
          k = int (length ds);
          n = k + e
      in if k \<le> n \<and> n \<le> 21 then ds @ replicate (nat (n - k)) CHR ''0''
         else if 0 < n \<and> n \<le> 21 then take (nat n) ds @ ''.'' @ drop (nat n) ds
         else if - 6 < n \<and> n \<le> 0 then ''0.'' @ replicate (nat (- n)) CHR ''0'' @ ds
         else (if k = 1 then ds else take 1 ds @ ''.'' @ drop 1 ds)
              @ ''e'' @ (if n - 1 < 0 then ''-'' else ''+'') @ digits_of (nat \<bar>n - 1\<bar>))"

fun num_toString :: "jsnum \<Rightarrow> string" where
  "num_toString NaN = ''NaN''"
| "num_toString PosInf = ''Infinity''"
| "num_toString NegInf = ''-Infinity''"
| "num_toString (Fin m e) =
     (if m = 0 then ''0''
      else if m < 0 then ''-'' @ pos_toString (nat (- m)) e
      else pos_toString (nat m) e)"

text \<open>\<^verbatim>\<open>ToString\<close>, used by template literals and by property keys.\<close>

fun js_ToString :: "jsval \<Rightarrow> string" where
  "js_ToString Undefined = ''undefined''"
| "js_ToString Null = ''null''"
| "js_ToString (Bool b) = (if b then ''true'' else ''false'')"
| "js_ToString (Num n) = num_toString n"
| "js_ToString (Str s) = s"

subsection \<open>\<^verbatim>\<open>Web3Utils.toWei(s, 'gwei')\<close>\<close>

text \<open>
  The library function the service calls on the printed number. It accepts a string
  matching \<^verbatim>\<open>^-?[0-9.]+$\<close>, splits it at the decimal point, rejects more than nine
  fractional digits (a gwei is \<open>10 ^ 9\<close> wei), pads the fraction to nine digits and returns
  \<open>whole * 10 ^ 9 + fraction\<close> printed in decimal. Every other string is rejected with an
  error. No rounding takes place.
\<close>

definition number_like :: "string \<Rightarrow> bool" where
  "number_like s =
     (let body = (if take 1 s = ''-'' then drop 1 s else s)
      in body \<noteq> [] \<and> list_all (\<lambda>c. is_digit c \<or> c = CHR ''.'') body)"

text \<open>
  The unsigned part \<open>ether\<close> of the input \<open>s\<close>, split at the point and scaled; \<open>s\<close> is
  only quoted in the error messages.
\<close>

definition ether_to_wei :: "string \<Rightarrow> string \<Rightarrow> jserror + int" where
  "ether_to_wei s ether =
     (if ether = ''.'' then
        Inl (Error (''[ethjs-unit] while converting number '' @ s @ '' to wei, invalid value''))
      else
        let whole0 = takeWhile (\<lambda>c. c \<noteq> CHR ''.'') ether;
            rest = dropWhile (\<lambda>c. c \<noteq> CHR ''.'') ether;
            fraction0 = drop 1 rest
        in if CHR ''.'' \<in> set fraction0 then
             Inl (Error (''[ethjs-unit] while converting number '' @ s
                         @ '' to wei,  too many decimal points''))
           else
             let whole = (if whole0 = [] then ''0'' else whole0);
                 fraction = (if fraction0 = [] then ''0'' else fraction0)
             in if length fraction > 9 then
                  Inl (Error (''[ethjs-unit] while converting number '' @ s
                              @ '' to wei, too many decimal places''))
                else
                  let padded = fraction @ replicate (9 - length fraction) CHR ''0''
                  in Inr (int (parse_nat whole) * 10 ^ 9 + int (parse_nat padded)))"

definition toWei_gwei :: "string \<Rightarrow> jserror + string" where
  "toWei_gwei s =
     (if \<not> number_like s then
        Inl (Error (''while converting number to string, invalid number value '' @ [CHR 0x27]
                    @ s @ [CHR 0x27] @ '', should be a number matching (^-?[0-9.]+).''))
      else
        let negative = (take 1 s = ''-'');
            ether = (if negative then drop 1 s else s)
        in (case ether_to_wei s ether of
              Inl e \<Rightarrow> Inl e
            | Inr wei \<Rightarrow> Inr (int_toString (if negative then - wei else wei))))"

section \<open>The gas price service\<close>

subsection \<open>Configuration and collaborators\<close>

text \<open>
  \<^verbatim>\<open>GAS_PRICE_BOUNDARIES\<close>, \<^verbatim>\<open>GAS_PRICE_OPTIONS\<close> and \<^verbatim>\<open>DEFAULT_UPDATE_INTERVAL\<close> come from
  \<^verbatim>\<open>utils/constants\<close>; they are parameters of the model. The bounds are numbers, the two
  option names are strings.
\<close>

record constants =
  GAS_PRICE_BOUNDARIES_MIN :: jsnum
  GAS_PRICE_BOUNDARIES_MAX :: jsnum
  GAS_PRICE_OPTIONS_GAS_PRICE :: string
  GAS_PRICE_OPTIONS_SPEED :: string
  DEFAULT_UPDATE_INTERVAL :: jsval

text \<open>The variables read from \<^verbatim>\<open>process.env\<close>: a string, or \<^verbatim>\<open>undefined\<close> when not set.\<close>

record env =
  FOREIGN_GAS_PRICE_FALLBACK :: "string option"
  FOREIGN_GAS_PRICE_ORACLE_URL :: "string option"
  FOREIGN_GAS_PRICE_SPEED_TYPE :: "string option"
  FOREIGN_GAS_PRICE_UPDATE_INTERVAL :: "string option"
  HOME_GAS_PRICE_FALLBACK :: "string option"
  HOME_GAS_PRICE_ORACLE_URL :: "string option"
  HOME_GAS_PRICE_SPEED_TYPE :: "string option"
  HOME_GAS_PRICE_UPDATE_INTERVAL :: "string option"

fun env_val :: "string option \<Rightarrow> jsval" where
  "env_val None = Undefined"
| "env_val (Some s) = Str s"

datatype bridge = homeBridge | foreignBridge

subsection \<open>Properties of the parsed oracle response\<close>

text \<open>
  A property of the parsed response can hold any JSON value, not only a number. The
  program observes three things of such a value: whether it is truthy, what \<^verbatim>\<open>ToNumber\<close>
  gives for it (in the comparisons with the bounds) and what its \<^verbatim>\<open>toString()\<close> method
  returns. For a string, \<^verbatim>\<open>ToNumber\<close> parses the text and rounds to a double, which is
  outside this model of numbers, so \<open>PStr s n\<close> is the string \<open>s\<close> together with the number
  \<open>n\<close> that \<^verbatim>\<open>ToNumber\<close> gives for it. \<open>PObj t n\<close> is an object, an array or a function,
  given by what its \<^verbatim>\<open>toString()\<close> call returns and what \<^verbatim>\<open>ToNumber\<close> gives for it; either
  may throw (an object with a property \<^verbatim>\<open>toString\<close> that is not a function).
\<close>

datatype jsprop =
    PUndefined
  | PNull
  | PBool bool
  | PNum jsnum
  | PStr string jsnum
  | PObj "jserror + string" "jserror + jsnum"

fun prop_truthy :: "jsprop \<Rightarrow> bool" where
  "prop_truthy PUndefined = False"
| "prop_truthy PNull = False"
| "prop_truthy (PBool b) = b"
| "prop_truthy (PNum n) = num_truthy n"
| "prop_truthy (PStr s n) = (s \<noteq> [])"
| "prop_truthy (PObj t n) = True"

fun prop_ToNumber :: "jsprop \<Rightarrow> jserror + jsnum" where
  "prop_ToNumber PUndefined = Inr NaN"
| "prop_ToNumber PNull = Inr (Fin 0 0)"
| "prop_ToNumber (PBool b) = Inr (if b then Fin 1 0 else Fin 0 0)"
| "prop_ToNumber (PNum n) = Inr n"
| "prop_ToNumber (PStr s n) = Inr n"
| "prop_ToNumber (PObj t n) = n"

text \<open>The method call \<^verbatim>\<open>x.toString()\<close>.\<close>

fun prop_toString :: "jsprop \<Rightarrow> jserror + string" where
  "prop_toString PUndefined =
     Inl (TypeError (''Cannot read property '' @ [CHR 0x27] @ ''toString'' @ [CHR 0x27]
                     @ '' of undefined''))"
| "prop_toString PNull =
     Inl (TypeError (''Cannot read property '' @ [CHR 0x27] @ ''toString'' @ [CHR 0x27]
                     @ '' of null''))"
| "prop_toString (PBool b) = Inr (if b then ''true'' else ''false'')"
| "prop_toString (PNum n) = Inr (num_toString n)"
| "prop_toString (PStr s n) = Inr s"
| "prop_toString (PObj t n) = t"

text \<open>
  \<^verbatim>\<open>x < n\<close> and \<^verbatim>\<open>x > n\<close> for a number \<open>n\<close>: \<open>x\<close> is converted with \<^verbatim>\<open>ToNumber\<close>, which may
  throw, and the numbers are compared.
\<close>

definition prop_lt :: "jsprop \<Rightarrow> jsnum \<Rightarrow> jserror + bool" where
  "prop_lt x n = (case prop_ToNumber x of Inl e \<Rightarrow> Inl e | Inr a \<Rightarrow> Inr (num_lt a n))"

definition prop_gt :: "jsprop \<Rightarrow> jsnum \<Rightarrow> jserror + bool" where
  "prop_gt x n = (case prop_ToNumber x of Inl e \<Rightarrow> Inl e | Inr a \<Rightarrow> Inr (num_gt a n))"

text \<open>
  The parsed oracle response: the own properties of the JSON object (\<open>None\<close> is a key the
  object does not have itself).
\<close>

type_synonym speed_table = "string \<rightharpoonup> jsprop"

text \<open>
  What every object inherits from \<^verbatim>\<open>Object.prototype\<close>: eleven functions, which print as
  native code and convert to \<^verbatim>\<open>NaN\<close>, and the accessor \<^verbatim>\<open>__proto__\<close>, which gives the
  prototype object itself.
\<close>

definition native_function :: "string \<Rightarrow> jsprop" where
  "native_function name = PObj (Inr (''function '' @ name @ ''() { [native code] }'')) (Inr NaN)"

definition Object_prototype :: "string \<rightharpoonup> jsprop" where
  "Object_prototype =
     [''constructor'' \<mapsto> native_function ''Object'',
      ''__defineGetter__'' \<mapsto> native_function ''__defineGetter__'',
      ''__defineSetter__'' \<mapsto> native_function ''__defineSetter__'',
      ''hasOwnProperty'' \<mapsto> native_function ''hasOwnProperty'',
      ''__lookupGetter__'' \<mapsto> native_function ''__lookupGetter__'',
      ''__lookupSetter__'' \<mapsto> native_function ''__lookupSetter__'',
      ''isPrototypeOf'' \<mapsto> native_function ''isPrototypeOf'',
      ''propertyIsEnumerable'' \<mapsto> native_function ''propertyIsEnumerable'',
      ''toString'' \<mapsto> native_function ''toString'',
      ''valueOf'' \<mapsto> native_function ''valueOf'',
      ''toLocaleString'' \<mapsto> native_function ''toLocaleString'',
      ''__proto__'' \<mapsto> PObj (Inr ''[object Object]'') (Inr NaN)]"

text \<open>
  \<^verbatim>\<open>obj[key]\<close>: the object's own property if it has one, else the inherited one, else
  \<^verbatim>\<open>undefined\<close>.
\<close>

definition get_property :: "speed_table \<Rightarrow> string \<Rightarrow> jsprop" where
  "get_property obj key =
     (case obj key of
        Some v \<Rightarrow> v
      | None \<Rightarrow> (case Object_prototype key of Some v \<Rightarrow> v | None \<Rightarrow> PUndefined))"

text \<open>
  What the outside answers during one refresh cycle: \<^verbatim>\<open>fetch(url)\<close> followed by
  \<^verbatim>\<open>response.json()\<close> gives a parsed mapping or rejects; the contract call
  \<^verbatim>\<open>bridgeContract.methods.gasPrice().call()\<close> gives a value or rejects.
\<close>

record world =
  http_json :: "jsval \<Rightarrow> jserror + speed_table"
  contract_gasPrice :: "bridge \<Rightarrow> jserror + jsval"

subsection \<open>Module state\<close>

record task =
  bridgeContract :: bridge
  oracleUrl :: jsval
  speedType :: jsval
  updateInterval :: jsval

text \<open>
  \<^verbatim>\<open>cachedGasPrice\<close>, \<^verbatim>\<open>cachedGasPriceOracleSpeeds\<close> and \<^verbatim>\<open>fetchGasPriceInterval\<close> are the
  module's three variables, all \<^verbatim>\<open>null\<close> at load time. \<open>timers\<close> is the runtime's table of
  active interval timers and \<open>next_handle\<close> its supply of handles.
\<close>

record state =
  cachedGasPrice :: jsval
  cachedGasPriceOracleSpeeds :: "speed_table option"
  fetchGasPriceInterval :: "nat option"
  timers :: "(nat \<times> task) list"
  next_handle :: nat

definition initial_state :: state where
  "initial_state =
     \<lparr>cachedGasPrice = Null, cachedGasPriceOracleSpeeds = None,
      fetchGasPriceInterval = None, timers = [], next_handle = 0\<rparr>"

subsection \<open>\<^verbatim>\<open>gasPriceWithinLimits\<close>\<close>

text \<open>
  The function is called with whatever the response holds for the speed type, so its
  argument is a property value; a comparison that throws ends the call.
\<close>

definition gasPriceWithinLimits :: "constants \<Rightarrow> jsprop \<Rightarrow> jserror + jsprop" where
  "gasPriceWithinLimits K gasPrice =
     (case prop_lt gasPrice (GAS_PRICE_BOUNDARIES_MIN K) of
        Inl e \<Rightarrow> Inl e
      | Inr too_low \<Rightarrow>
          if too_low then Inr (PNum (GAS_PRICE_BOUNDARIES_MIN K))
          else (case prop_gt gasPrice (GAS_PRICE_BOUNDARIES_MAX K) of
                  Inl e \<Rightarrow> Inl e
                | Inr too_high \<Rightarrow>
                    if too_high then Inr (PNum (GAS_PRICE_BOUNDARIES_MAX K))
                    else Inr gasPrice))"

subsection \<open>\<^verbatim>\<open>fetchGasPriceFromOracle\<close>\<close>

record oracle_result =
  oracleGasPrice :: jsval
  oracleResponse :: speed_table

definition missing_speed_message :: "jsval \<Rightarrow> string" where
  "missing_speed_message speedType' =
     ''Response from Oracle didn'' @ [CHR 0x27] @ ''t include gas price for ''
       @ js_ToString speedType' @ '' type.''"

definition fetchGasPriceFromOracle ::
    "constants \<Rightarrow> world \<Rightarrow> jsval \<Rightarrow> jsval \<Rightarrow> jserror + oracle_result" where
  "fetchGasPriceFromOracle K W oracleUrl' speedType' =
     (case http_json W oracleUrl' of
        Inl e \<Rightarrow> Inl e
      | Inr json \<Rightarrow>
          let oracleGasPrice' = get_property json (js_ToString speedType')
          in if \<not> prop_truthy oracleGasPrice' then
               Inl (Error (missing_speed_message speedType'))
             else
               (case gasPriceWithinLimits K oracleGasPrice' of
                  Inl e \<Rightarrow> Inl e
                | Inr gasPrice' \<Rightarrow>
                    (case prop_toString gasPrice' of
                       Inl e \<Rightarrow> Inl e
                     | Inr printed \<Rightarrow>
                         (case toWei_gwei printed of
                            Inl e \<Rightarrow> Inl e
                          | Inr wei \<Rightarrow>
                              Inr \<lparr>oracleGasPrice = Str wei, oracleResponse = json\<rparr>))))"

subsection \<open>\<^verbatim>\<open>fetchGasPrice\<close>\<close>

datatype log_entry = LogDebug jsval string | LogError string

record outcome =
  gasPrice :: jsval
  oracleGasPriceSpeeds :: "speed_table option"

text \<open>
  \<open>oracleFn\<close> is the caller's thunk; the contract is asked only when the thunk fails. The
  second component is what was handed to the logger, in order.
\<close>

definition fetchGasPrice ::
    "world \<Rightarrow> bridge \<Rightarrow> (unit \<Rightarrow> jserror + oracle_result) \<Rightarrow> outcome \<times> log_entry list" where
  "fetchGasPrice W bridgeContract' oracleFn =
     (case oracleFn () of
        Inr r \<Rightarrow>
          (\<lparr>gasPrice = oracleGasPrice r, oracleGasPriceSpeeds = Some (oracleResponse r)\<rparr>,
           [LogDebug (oracleGasPrice r) ''Gas price updated using the oracle''])
      | Inl e \<Rightarrow>
          (case contract_gasPrice W bridgeContract' of
             Inr g \<Rightarrow>
               (\<lparr>gasPrice = g, oracleGasPriceSpeeds = None\<rparr>,
                [LogError (''Gas Price API is not available. '' @ message e),
                 LogDebug g ''Gas price updated using the contracts''])
           | Inl e' \<Rightarrow>
               (\<lparr>gasPrice = Null, oracleGasPriceSpeeds = None\<rparr>,
                [LogError (''Gas Price API is not available. '' @ message e),
                 LogError (''There was a problem getting the gas price from the contract. ''
                           @ message e')])))"

subsection \<open>\<^verbatim>\<open>start\<close> and the refresh callback\<close>

text \<open>\<^verbatim>\<open>clearInterval(h)\<close>: the timer with that handle, if any, is no longer active.\<close>

definition clearInterval :: "nat option \<Rightarrow> state \<Rightarrow> state" where
  "clearInterval h st = st\<lparr>timers := filter (\<lambda>(h', t). Some h' \<noteq> h) (timers st)\<rparr>"

text \<open>
  Modelled from the spec: \<^verbatim>\<open>setIntervalAndRun\<close> of \<^verbatim>\<open>utils/utils\<close>, which is not among the
  sources. It invokes the callback once at once and then repeatedly at the interval, and
  its result is the handle that \<^verbatim>\<open>clearInterval\<close> takes. Here it registers the task under a
  fresh handle; every invocation of the callback, the first one included, is a \<open>refresh\<close>
  step, which happens when the awaited fetches of that invocation have completed.
\<close>

definition setIntervalAndRun :: "task \<Rightarrow> state \<Rightarrow> nat \<times> state" where
  "setIntervalAndRun t st =
     (next_handle st,
      st\<lparr>timers := timers st @ [(next_handle st, t)], next_handle := Suc (next_handle st)\<rparr>)"

text \<open>
  The callback that \<open>start\<close> schedules. Its two assignments (\<open>update_cache\<close>) run after
  the awaited \<open>fetchGasPrice\<close> has returned, on the module variables as they are then; an
  object is always truthy, so \<^verbatim>\<open>oracleGasPriceSpeeds || cachedGasPriceOracleSpeeds\<close> keeps the
  old table exactly when the outcome has \<^verbatim>\<open>null\<close>.
\<close>

definition update_cache :: "outcome \<Rightarrow> state \<Rightarrow> state" where
  "update_cache out st =
     st\<lparr>cachedGasPrice := js_or (gasPrice out) (cachedGasPrice st),
        cachedGasPriceOracleSpeeds :=
          (case oracleGasPriceSpeeds out of
             Some speeds \<Rightarrow> Some speeds
           | None \<Rightarrow> cachedGasPriceOracleSpeeds st)\<rparr>"

definition refresh :: "constants \<Rightarrow> world \<Rightarrow> task \<Rightarrow> state \<Rightarrow> state" where
  "refresh K W t st =
     update_cache
       (fst (fetchGasPrice W (bridgeContract t)
               (\<lambda>_. fetchGasPriceFromOracle K W (oracleUrl t) (speedType t))))
       st"

definition unrecognized_message :: "jsval \<Rightarrow> string" where
  "unrecognized_message chainId =
     ''Unrecognized chainId '' @ [CHR 0x27] @ js_ToString chainId @ [CHR 0x27]"

text \<open>
  An exception does not undo what ran before it, so \<open>start\<close> returns the state in both
  cases.
\<close>

definition start :: "constants \<Rightarrow> env \<Rightarrow> jsval \<Rightarrow> state \<Rightarrow> (jserror + unit) \<times> state" where
  "start K E chainId st0 =
     (let st = clearInterval (fetchGasPriceInterval st0) st0
      in if chainId = Str ''home'' then
           let t = \<lparr>bridgeContract = homeBridge,
                    oracleUrl = env_val (HOME_GAS_PRICE_ORACLE_URL E),
                    speedType = env_val (HOME_GAS_PRICE_SPEED_TYPE E),
                    updateInterval = js_or (env_val (HOME_GAS_PRICE_UPDATE_INTERVAL E))
                                           (DEFAULT_UPDATE_INTERVAL K)\<rparr>;
               st1 = st\<lparr>cachedGasPrice := env_val (HOME_GAS_PRICE_FALLBACK E)\<rparr>;
               (h, st2) = setIntervalAndRun t st1
           in (Inr (), st2\<lparr>fetchGasPriceInterval := Some h\<rparr>)
         else if chainId = Str ''foreign'' then
           let t = \<lparr>bridgeContract = foreignBridge,
                    oracleUrl = env_val (FOREIGN_GAS_PRICE_ORACLE_URL E),
                    speedType = env_val (FOREIGN_GAS_PRICE_SPEED_TYPE E),
                    updateInterval = js_or (env_val (FOREIGN_GAS_PRICE_UPDATE_INTERVAL E))
                                           (DEFAULT_UPDATE_INTERVAL K)\<rparr>;
               st1 = st\<lparr>cachedGasPrice := env_val (FOREIGN_GAS_PRICE_FALLBACK E)\<rparr>;
               (h, st2) = setIntervalAndRun t st1
           in (Inr (), st2\<lparr>fetchGasPriceInterval := Some h\<rparr>)
         else (Inl (Error (unrecognized_message chainId)), st))"

text \<open>
  Refresh cycles completing one after the other, each for its task and with the answers
  it got from the outside.
\<close>

fun refresh_all :: "constants \<Rightarrow> (world \<times> task) list \<Rightarrow> state \<Rightarrow> state" where
  "refresh_all K [] st = st"
| "refresh_all K ((W, t) # cycles) st = refresh_all K cycles (refresh K W t st)"

subsection \<open>\<^verbatim>\<open>getPrice\<close> and \<^verbatim>\<open>processGasPriceOptions\<close>\<close>

text \<open>
  The \<open>options\<close> argument: \<open>None\<close> when it is missing (or \<^verbatim>\<open>null\<close>), otherwise its two
  properties, \<open>Undefined\<close> for one that is not there.
\<close>

record options =
  opt_type :: jsval
  opt_value :: jsval

definition processGasPriceOptions ::
    "constants \<Rightarrow> options option \<Rightarrow> jsval \<Rightarrow> speed_table option \<Rightarrow> jserror + jsval" where
  "processGasPriceOptions K opts cachedGasPrice' cachedGasPriceOracleSpeeds' =
     (case opts of
        None \<Rightarrow> Inr cachedGasPrice'
      | Some options' \<Rightarrow>
          if truthy (opt_type options') \<and> truthy (opt_value options') then
            if opt_type options' = Str (GAS_PRICE_OPTIONS_GAS_PRICE K) then
              Inr (opt_value options')
            else if opt_type options' = Str (GAS_PRICE_OPTIONS_SPEED K) then
              (case cachedGasPriceOracleSpeeds' of
                 None \<Rightarrow>
                   Inl (TypeError (''Cannot read property '' @ [CHR 0x27]
                                   @ js_ToString (opt_value options') @ [CHR 0x27] @ '' of null''))
               | Some speeds \<Rightarrow>
                   let speedOption = get_property speeds (js_ToString (opt_value options'))
                   in if prop_truthy speedOption then
                        (case prop_toString speedOption of
                           Inl e \<Rightarrow> Inl e
                         | Inr printed \<Rightarrow>
                             (case toWei_gwei printed of
                                Inl e \<Rightarrow> Inl e
                              | Inr wei \<Rightarrow> Inr (Str wei)))
                      else Inr cachedGasPrice')
            else Inr cachedGasPrice'
          else Inr cachedGasPrice')"

definition getPrice :: "constants \<Rightarrow> options option \<Rightarrow> state \<Rightarrow> (jserror + jsval) \<times> state" where
  "getPrice K opts st =
     (processGasPriceOptions K opts (cachedGasPrice st) (cachedGasPriceOracleSpeeds st), st)"

subsection \<open>Exact conversion from gwei to wei\<close>

text \<open>
  What the spec asks of the conversion: the product of the number with \<open>10 ^ 9\<close>, when it is
  an integer. This is the reference that \<open>toWei_gwei\<close> on the printed number is compared
  with; it is not part of the program.
\<close>

fun gwei_to_wei :: "jsnum \<Rightarrow> int option" where
  "gwei_to_wei (Fin m e) =
     (if 0 \<le> e + 9 then Some (m * 10 ^ nat (e + 9))
      else if 10 ^ nat (- (e + 9)) dvd m then Some (m div 10 ^ nat (- (e + 9)))
      else None)"
| "gwei_to_wei NaN = None"
| "gwei_to_wei PosInf = None"
| "gwei_to_wei NegInf = None"

subsection \<open>Example configuration\<close>

text \<open>
  Modelled from the spec: \<^verbatim>\<open>utils/constants\<close> is not among the sources. The bounds are
  those of the spec's example for the bounds policy (1 and 100), the option names those of
  the lookup interface (\<^verbatim>\<open>gasPrice\<close> and \<^verbatim>\<open>speed\<close>). These values are used for concrete
  runs only; every general statement below is about arbitrary constants.
\<close>

definition example_constants :: constants where
  "example_constants =
     \<lparr>GAS_PRICE_BOUNDARIES_MIN = Fin 1 0, GAS_PRICE_BOUNDARIES_MAX = Fin 100 0,
      GAS_PRICE_OPTIONS_GAS_PRICE = ''gasPrice'', GAS_PRICE_OPTIONS_SPEED = ''speed'',
      DEFAULT_UPDATE_INTERVAL = Num (Fin 600000 0)\<rparr>"

definition example_env :: env where
  "example_env =
     \<lparr>FOREIGN_GAS_PRICE_FALLBACK = Some ''10000000000'',
      FOREIGN_GAS_PRICE_ORACLE_URL = Some ''https://foreign.example/gas'',
      FOREIGN_GAS_PRICE_SPEED_TYPE = Some ''standard'',
      FOREIGN_GAS_PRICE_UPDATE_INTERVAL = None,
      HOME_GAS_PRICE_FALLBACK = Some ''1000000000'',
      HOME_GAS_PRICE_ORACLE_URL = Some ''https://home.example/gas'',
      HOME_GAS_PRICE_SPEED_TYPE = Some ''fast'',
      HOME_GAS_PRICE_UPDATE_INTERVAL = Some ''30000''\<rparr>"

definition home_task :: task where
  "home_task =
     \<lparr>bridgeContract = homeBridge, oracleUrl = Str ''https://home.example/gas'',
      speedType = Str ''fast'', updateInterval = Str ''30000''\<rparr>"

text \<open>Three outsides: nothing answers; only the contract answers; the oracle answers.\<close>

definition world_down :: world where
  "world_down =
     \<lparr>http_json = (\<lambda>url. Inl (Error ''request failed'')),
      contract_gasPrice = (\<lambda>b. Inl (Error ''call reverted''))\<rparr>"

definition world_contract_only :: world where
  "world_contract_only =
     \<lparr>http_json = (\<lambda>url. Inl (Error ''request failed'')),
      contract_gasPrice = (\<lambda>b. Inr (Str ''7000000000''))\<rparr>"

definition world_oracle :: "speed_table \<Rightarrow> world" where
  "world_oracle json =
     \<lparr>http_json = (\<lambda>url. Inr json),
      contract_gasPrice = (\<lambda>b. Inr (Str ''7000000000''))\<rparr>"

section \<open>Helper lemmas\<close>

subsection \<open>Comparing numbers\<close>

lemma fin_lt_common:
  assumes "e0 \<le> e" and "e0 \<le> e'"
  shows "fin_lt m e m' e' \<longleftrightarrow> m * 10 ^ nat (e - e0) < m' * 10 ^ nat (e' - e0)"
proof -
  define d where "d = nat (min e e' - e0)"
  have a: "nat (e - e0) = nat (e - min e e') + d"
    using assms by (simp add: d_def)
  have b: "nat (e' - e0) = nat (e' - min e e') + d"
    using assms by (simp add: d_def)
  have pos: "(0::int) < 10 ^ d" by simp
  have "m * 10 ^ nat (e - e0) < m' * 10 ^ nat (e' - e0)
        \<longleftrightarrow> (m * 10 ^ nat (e - min e e')) * 10 ^ d < (m' * 10 ^ nat (e' - min e e')) * 10 ^ d"
    by (simp add: a b power_add mult.assoc)
  also have "\<dots> \<longleftrightarrow> m * 10 ^ nat (e - min e e') < m' * 10 ^ nat (e' - min e e')"
    using pos by (simp only: mult_less_cancel_right_pos)
  finally show ?thesis by (simp add: fin_lt_def)
qed

lemma fin_lt_chain:
  assumes "fin_lt m1 e1 m2 e2" and "\<not> fin_lt m3 e3 m2 e2"
  shows "\<not> fin_lt m3 e3 m1 e1"
proof -
  define e0 where "e0 = min e1 (min e2 e3)"
  have le: "e0 \<le> e1" "e0 \<le> e2" "e0 \<le> e3" by (simp_all add: e0_def)
  from assms show ?thesis
    unfolding fin_lt_common [OF le(1) le(2)] fin_lt_common [OF le(3) le(2)]
      fin_lt_common [OF le(3) le(1)]
    by linarith
qed

text \<open>Below the lower bound means not above the upper one, when the bounds are in order.\<close>

lemma num_lt_chain:
  assumes "num_lt v lo" and "num_le lo hi"
  shows "\<not> num_lt hi v"
proof (cases "\<exists>m1 e1 m2 e2 m3 e3. v = Fin m1 e1 \<and> lo = Fin m2 e2 \<and> hi = Fin m3 e3")
  case True
  then obtain m1 e1 m2 e2 m3 e3
    where eq: "v = Fin m1 e1" "lo = Fin m2 e2" "hi = Fin m3 e3" by blast
  from assms have "fin_lt m1 e1 m2 e2" and "\<not> fin_lt m3 e3 m2 e2"
    by (simp_all add: eq num_le_def)
  then have "\<not> fin_lt m3 e3 m1 e1" by (rule fin_lt_chain)
  then show ?thesis by (simp add: eq)
next
  case False
  with assms show ?thesis
    by (cases v; cases lo; cases hi; simp add: num_le_def)
qed

text \<open>For a number no conversion can throw, and the result is a number again.\<close>

lemma gasPriceWithinLimits_number:
  "gasPriceWithinLimits K (PNum v) =
     Inr (PNum (if num_lt v (GAS_PRICE_BOUNDARIES_MIN K) then GAS_PRICE_BOUNDARIES_MIN K
                else if num_gt v (GAS_PRICE_BOUNDARIES_MAX K) then GAS_PRICE_BOUNDARIES_MAX K
                else v))"
  by (simp add: gasPriceWithinLimits_def prop_lt_def prop_gt_def)

subsection \<open>The refresh cycle\<close>

lemma update_cache_cachedGasPrice:
  "cachedGasPrice (update_cache out st) =
     (if truthy (gasPrice out) then gasPrice out else cachedGasPrice st)"
  by (simp add: update_cache_def js_or_def)

lemma update_cache_speeds:
  "cachedGasPriceOracleSpeeds (update_cache out st) =
     (case oracleGasPriceSpeeds out of
        Some speeds \<Rightarrow> Some speeds
      | None \<Rightarrow> cachedGasPriceOracleSpeeds st)"
  by (simp add: update_cache_def)

lemma update_cache_absent:
  "update_cache \<lparr>gasPrice = Null, oracleGasPriceSpeeds = None\<rparr> st = st"
  by (simp add: update_cache_def js_or_def)

lemma fetchGasPrice_fst:
  "fst (fetchGasPrice W b oracleFn) =
     (case oracleFn () of
        Inr r \<Rightarrow> \<lparr>gasPrice = oracleGasPrice r, oracleGasPriceSpeeds = Some (oracleResponse r)\<rparr>
      | Inl e \<Rightarrow>
          (case contract_gasPrice W b of
             Inr g \<Rightarrow> \<lparr>gasPrice = g, oracleGasPriceSpeeds = None\<rparr>
           | Inl e' \<Rightarrow> \<lparr>gasPrice = Null, oracleGasPriceSpeeds = None\<rparr>))"
  by (simp add: fetchGasPrice_def split: sum.splits)

lemma refresh_cachedGasPrice:
  "cachedGasPrice (refresh K W t st) =
     (case fetchGasPriceFromOracle K W (oracleUrl t) (speedType t) of
        Inr r \<Rightarrow> if truthy (oracleGasPrice r) then oracleGasPrice r else cachedGasPrice st
      | Inl e \<Rightarrow>
          (case contract_gasPrice W (bridgeContract t) of
             Inr g \<Rightarrow> if truthy g then g else cachedGasPrice st
           | Inl e' \<Rightarrow> cachedGasPrice st))"
  by (simp add: refresh_def update_cache_cachedGasPrice fetchGasPrice_fst split: sum.splits)

lemma truthy_set: "truthy v \<Longrightarrow> \<not> unset v"
  by (auto simp: unset_def)

lemma refresh_replaces:
  "cachedGasPrice (refresh K W t st) = cachedGasPrice st
   \<or> truthy (cachedGasPrice (refresh K W t st))
     \<and> ((\<exists>r. fetchGasPriceFromOracle K W (oracleUrl t) (speedType t) = Inr r
              \<and> oracleGasPrice r = cachedGasPrice (refresh K W t st))
        \<or> (\<exists>e. fetchGasPriceFromOracle K W (oracleUrl t) (speedType t) = Inl e)
          \<and> contract_gasPrice W (bridgeContract t) = Inr (cachedGasPrice (refresh K W t st)))"
  unfolding refresh_cachedGasPrice by (simp split: sum.splits)

lemma refresh_truthy:
  "truthy (cachedGasPrice st) \<Longrightarrow> truthy (cachedGasPrice (refresh K W t st))"
  unfolding refresh_cachedGasPrice by (simp split: sum.splits)

lemma refresh_set:
  "\<not> unset (cachedGasPrice st) \<Longrightarrow> \<not> unset (cachedGasPrice (refresh K W t st))"
  unfolding refresh_cachedGasPrice by (simp add: truthy_set split: sum.splits)

lemma refresh_all_truthy:
  "truthy (cachedGasPrice st) \<Longrightarrow> truthy (cachedGasPrice (refresh_all K cycles st))"
proof (induction cycles arbitrary: st)
  case Nil
  then show ?case by simp
next
  case (Cons c cycles)
  obtain W t where c: "c = (W, t)" by (cases c)
  from Cons.prems have "truthy (cachedGasPrice (refresh K W t st))" by (rule refresh_truthy)
  then show ?case unfolding c by (simp add: Cons.IH)
qed

lemma refresh_all_set:
  "\<not> unset (cachedGasPrice st) \<Longrightarrow> \<not> unset (cachedGasPrice (refresh_all K cycles st))"
proof (induction cycles arbitrary: st)
  case Nil
  then show ?case by simp
next
  case (Cons c cycles)
  obtain W t where c: "c = (W, t)" by (cases c)
  from Cons.prems have "\<not> unset (cachedGasPrice (refresh K W t st))" by (rule refresh_set)
  then show ?case unfolding c by (simp add: Cons.IH)
qed

lemma start_home_cachedGasPrice:
  "cachedGasPrice (snd (start K E (Str ''home'') st)) = env_val (HOME_GAS_PRICE_FALLBACK E)"
  by (simp add: start_def setIntervalAndRun_def clearInterval_def)

lemma start_foreign_cachedGasPrice:
  "cachedGasPrice (snd (start K E (Str ''foreign'') st)) = env_val (FOREIGN_GAS_PRICE_FALLBACK E)"
  by (simp add: start_def setIntervalAndRun_def clearInterval_def)

lemma world_down_refresh: "refresh K world_down t st = st"
  by (simp add: refresh_def fetchGasPrice_fst fetchGasPriceFromOracle_def world_down_def
      update_cache_absent)

lemma world_contract_only_refresh:
  "refresh K world_contract_only t st = st\<lparr>cachedGasPrice := Str ''7000000000''\<rparr>"
  by (simp add: refresh_def fetchGasPrice_fst fetchGasPriceFromOracle_def
      world_contract_only_def update_cache_def js_or_def)

subsection \<open>Digits\<close>

lemma digit_cases: "d < 10 \<Longrightarrow> d \<in> {0, 1, 2, 3, 4, 5, 6, 7, 8, 9::nat}"
  by auto

lemma digit_val_digit_char: "d < 10 \<Longrightarrow> digit_val (digit_char d) = d"
  using digit_cases [of d]
  by (auto simp: digit_val_def digit_char_def is_digit_def)

lemma is_digit_digit_char: "d < 10 \<Longrightarrow> is_digit (digit_char d)"
  using digit_cases [of d]
  by (auto simp: digit_char_def is_digit_def)

lemma is_digit_not_special: "is_digit c \<Longrightarrow> c \<noteq> CHR ''.'' \<and> c \<noteq> CHR ''-''"
  by (auto simp: is_digit_def)

lemma parse_fold:
  "foldl (\<lambda>a c. 10 * a + digit_val c) a xs
     = a * 10 ^ length xs + foldl (\<lambda>a c. 10 * a + digit_val c) 0 xs"
proof (induction xs arbitrary: a)
  case Nil
  show ?case by simp
next
  case (Cons x xs)
  show ?case
    using Cons.IH [of "10 * a + digit_val x"] Cons.IH [of "digit_val x"]
    by (simp add: algebra_simps)
qed

lemma parse_nat_append:
  "parse_nat (xs @ ys) = parse_nat xs * 10 ^ length ys + parse_nat ys"
  using parse_fold [of "parse_nat xs" ys] by (simp add: parse_nat_def)

lemma parse_nat_single: "parse_nat [c] = digit_val c"
  by (simp add: parse_nat_def)

lemma parse_nat_zeros: "parse_nat (replicate j CHR ''0'') = 0"
  by (induction j) (simp_all add: parse_nat_def digit_val_def is_digit_def)

lemma parse_nat_pad: "parse_nat (xs @ replicate j CHR ''0'') = parse_nat xs * 10 ^ j"
  by (simp add: parse_nat_append parse_nat_zeros)

lemma parse_nat_lead: "parse_nat (replicate j CHR ''0'' @ xs) = parse_nat xs"
  by (simp add: parse_nat_append parse_nat_zeros)

lemma parse_nat_digits_of: "parse_nat (digits_of n) = n"
proof (induction n rule: digits_of.induct)
  case (1 n)
  show ?case
  proof (cases "n < 10")
    case True
    then show ?thesis
      by (simp add: digits_of.simps [of n] parse_nat_single digit_val_digit_char)
  next
    case False
    with 1 show ?thesis
      by (simp add: digits_of.simps [of n] parse_nat_append parse_nat_single digit_val_digit_char)
  qed
qed

lemma digits_of_digits: "list_all is_digit (digits_of n)"
proof (induction n rule: digits_of.induct)
  case (1 n)
  then show ?case
    by (cases "n < 10") (simp_all add: digits_of.simps [of n] is_digit_digit_char)
qed

lemma digits_of_nonempty: "digits_of n \<noteq> []"
  by (cases "n < 10") (simp_all add: digits_of.simps [of n])

lemma digits_of_bounds:
  "0 < n \<Longrightarrow> 10 ^ (length (digits_of n) - 1) \<le> n \<and> n < 10 ^ length (digits_of n)"
proof (induction n rule: digits_of.induct)
  case (1 n)
  show ?case
  proof (cases "n < 10")
    case True
    with 1 show ?thesis by (simp add: digits_of.simps [of n])
  next
    case False
    then have pos: "0 < n div 10" by simp
    define k where "k = length (digits_of (n div 10))"
    have k: "0 < k" using digits_of_nonempty [of "n div 10"] by (simp add: k_def)
    from 1 False pos have ih: "10 ^ (k - 1) \<le> n div 10" "n div 10 < 10 ^ k"
      by (simp_all add: k_def)
    have len: "length (digits_of n) = Suc k"
      using False by (simp add: digits_of.simps [of n] k_def)
    from ih(1) have "10 * 10 ^ (k - 1) \<le> n" by linarith
    moreover have "10 * 10 ^ (k - 1) = (10::nat) ^ k"
      using k by (cases k) simp_all
    moreover from ih(2) have "n < 10 * 10 ^ k" by linarith
    ultimately show ?thesis by (simp add: len)
  qed
qed

subsection \<open>Converting a decimal text\<close>

lemma digits_no_point: "list_all is_digit ws \<Longrightarrow> x \<in> set ws \<Longrightarrow> x \<noteq> CHR ''.''"
  using is_digit_not_special by (auto simp: list_all_iff)

text \<open>An unsigned decimal without a point.\<close>

lemma ether_to_wei_whole:
  assumes "ws \<noteq> []" and "list_all is_digit ws"
  shows "ether_to_wei s ws = Inr (int (parse_nat ws) * 10 ^ 9)"
proof -
  have np: "(ws = ''.'') = False" using assms by (auto simp: is_digit_def)
  have tw: "takeWhile (\<lambda>c. c \<noteq> CHR ''.'') ws = ws"
    using digits_no_point [OF assms(2)] by (simp add: takeWhile_eq_all_conv)
  have dw: "dropWhile (\<lambda>c. c \<noteq> CHR ''.'') ws = []"
    using digits_no_point [OF assms(2)] by simp
  have pad: "parse_nat (''0'' @ replicate (9 - length ''0'') CHR ''0'') = 0"
    by (simp only: parse_nat_pad) (simp add: parse_nat_def digit_val_def is_digit_def)
  have "ether_to_wei s ws
          = Inr (int (parse_nat ws) * 10 ^ 9
                   + int (parse_nat (''0'' @ replicate (9 - length ''0'') CHR ''0'')))"
    using assms(1)
    by (simp only: ether_to_wei_def Let_def np tw dw if_False) simp
  then show ?thesis by (simp only: pad) simp
qed

text \<open>An unsigned decimal with a point and at most nine digits after it.\<close>

lemma ether_to_wei_point:
  assumes "ws \<noteq> []" and "list_all is_digit ws" and "fs \<noteq> []" and "list_all is_digit fs"
    and "length fs \<le> 9"
  shows "ether_to_wei s (ws @ ''.'' @ fs)
           = Inr (int (parse_nat ws) * 10 ^ 9 + int (parse_nat fs) * 10 ^ (9 - length fs))"
proof -
  let ?s = "ws @ ''.'' @ fs"
  have np: "(?s = ''.'') = False" using assms(1) by (cases ws) auto
  have tw: "takeWhile (\<lambda>c. c \<noteq> CHR ''.'') ?s = ws"
    using digits_no_point [OF assms(2)] by (simp add: takeWhile_append2)
  have dw: "dropWhile (\<lambda>c. c \<noteq> CHR ''.'') ?s = ''.'' @ fs"
    using digits_no_point [OF assms(2)] by (simp add: dropWhile_append2)
  have nofs: "CHR ''.'' \<notin> set fs"
    using digits_no_point [OF assms(4)] by blast
  have "ether_to_wei s ?s
          = Inr (int (parse_nat ws) * 10 ^ 9
                   + int (parse_nat (fs @ replicate (9 - length fs) CHR ''0'')))"
    using assms(1,3,5) nofs
    by (simp only: ether_to_wei_def Let_def np tw dw if_False) simp
  then show ?thesis by (simp only: parse_nat_pad) simp
qed

text \<open>The sign: a string of digits and points, with or without a minus in front.\<close>

lemma toWei_gwei_unsigned:
  assumes "x \<noteq> []" and "list_all (\<lambda>c. is_digit c \<or> c = CHR ''.'') x"
    and "ether_to_wei x x = Inr w"
  shows "toWei_gwei x = Inr (int_toString w)"
proof -
  have neg: "(take 1 x = ''-'') = False"
    using assms(1,2) by (cases x) (auto simp: is_digit_def)
  have nl: "number_like x"
    unfolding number_like_def Let_def neg using assms(1,2) by simp
  show ?thesis
    by (simp only: toWei_gwei_def Let_def nl neg assms(3) not_True_eq_False if_False) simp
qed

lemma toWei_gwei_signed:
  assumes "x \<noteq> []" and "list_all (\<lambda>c. is_digit c \<or> c = CHR ''.'') x"
    and "ether_to_wei (''-'' @ x) x = Inr w"
  shows "toWei_gwei (''-'' @ x) = Inr (int_toString (- w))"
proof -
  have neg: "(take 1 (''-'' @ x) = ''-'') = True" by simp
  have dr: "drop 1 (''-'' @ x) = x" by simp
  have nl: "number_like (''-'' @ x)"
    unfolding number_like_def Let_def neg dr using assms(1,2) by simp
  show ?thesis
    by (simp only: toWei_gwei_def Let_def nl neg dr assms(3) not_True_eq_False if_False if_True)
       simp
qed

subsection \<open>Printing, then converting\<close>

lemma strip10_props:
  "0 < s0 \<Longrightarrow> strip10 s0 e0 = (s, e)
     \<Longrightarrow> 0 < s \<and> \<not> 10 dvd s \<and> e0 \<le> e \<and> s * 10 ^ nat (e - e0) = s0"
proof (induction s0 e0 rule: strip10.induct)
  case (1 s0 e0)
  show ?case
  proof (cases "s0 mod 10 = 0")
    case True
    with "1.prems" have rec: "strip10 (s0 div 10) (e0 + 1) = (s, e)"
      by (simp add: strip10.simps [of s0 e0])
    from True "1.prems" have pos: "0 < s0 div 10" by (simp add: div_greater_zero_iff mod_eq_0_iff_dvd dvd_imp_le)
    from "1.IH" [OF _ pos rec] True "1.prems"
    have ih: "0 < s" "\<not> 10 dvd s" "e0 + 1 \<le> e" "s * 10 ^ nat (e - (e0 + 1)) = s0 div 10"
      by simp_all
    have "nat (e - e0) = Suc (nat (e - (e0 + 1)))" using ih(3) by simp
    then have "s * 10 ^ nat (e - e0) = 10 * (s0 div 10)"
      using ih(4) by simp
    also have "\<dots> = s0" using True by (simp add: mod_eq_0_iff_dvd)
    finally show ?thesis using ih by simp
  next
    case False
    with "1.prems" have "s = s0" "e = e0"
      by (simp_all add: strip10.simps [of s0 e0])
    with False "1.prems" show ?thesis by (simp add: mod_eq_0_iff_dvd)
  qed
qed

lemma zeros_digits: "list_all is_digit (replicate q CHR ''0'')"
  by (induction q) (simp_all add: is_digit_def)

lemma digits_body: "list_all is_digit xs \<Longrightarrow> list_all (\<lambda>c. is_digit c \<or> c = CHR ''.'') xs"
  by (simp add: list_all_iff)

text \<open>
  The printed form of a positive number with at most nine decimals and between
  \<open>10 ^ -6\<close> and \<open>10 ^ 21\<close> is plain, and \<open>ether_to_wei\<close> reads it back exactly.
\<close>

lemma pos_toString_to_wei:
  assumes s0: "0 < s0" and st: "strip10 s0 e0 = (s, e)" and e: "- 9 \<le> e"
    and lo: "1000 \<le> s * 10 ^ nat (e + 9)" and hi: "s * 10 ^ nat (e + 9) < 10 ^ 30"
  shows "pos_toString s0 e0 \<noteq> []
       \<and> list_all (\<lambda>c. is_digit c \<or> c = CHR ''.'') (pos_toString s0 e0)
       \<and> ether_to_wei z (pos_toString s0 e0) = Inr (int (s * 10 ^ nat (e + 9)))"
proof -
  define ds where "ds = digits_of s"
  define k where "k = length ds"
  define j where "j = nat (e + 9)"
  from strip10_props [OF s0 st] have spos: "0 < s" by simp
  have dig: "list_all is_digit ds" by (simp add: ds_def digits_of_digits)
  have ne: "ds \<noteq> []" by (simp add: ds_def digits_of_nonempty)
  have k1: "1 \<le> k" using ne by (cases ds) (simp_all add: k_def)
  have val: "parse_nat ds = s" by (simp add: ds_def parse_nat_digits_of)
  from digits_of_bounds [OF spos] have b: "10 ^ (k - 1) \<le> s" "s < 10 ^ k"
    by (simp_all add: k_def ds_def)
  have ej: "e = int j - 9" using e by (simp add: j_def)
  have "(10::nat) ^ 3 \<le> s * 10 ^ j" using lo by (simp add: j_def)
  also have "\<dots> < 10 ^ k * 10 ^ j" using b(2) by simp
  finally have "(10::nat) ^ 3 < 10 ^ (k + j)" by (simp add: power_add)
  then have kj_lo: "3 < k + j" by (simp only: power_strict_increasing_iff) 
  have "(10::nat) ^ (k - 1) * 10 ^ j \<le> s * 10 ^ j" using b(1) by simp
  also have "\<dots> < 10 ^ 30" using hi by (simp add: j_def)
  finally have "(10::nat) ^ (k - 1 + j) < 10 ^ 30" by (simp add: power_add)
  then have kj_hi: "k - 1 + j < 30" by (simp only: power_strict_increasing_iff)
  define n where "n = int k + e"
  have n_lo: "- 6 < n" using kj_lo by (simp add: n_def ej)
  have n_hi: "n \<le> 21" using kj_hi k1 by (simp add: n_def ej)
  have unfold: "pos_toString s0 e0 =
      (if int k \<le> n \<and> n \<le> 21 then ds @ replicate (nat (n - int k)) CHR ''0''
       else if 0 < n \<and> n \<le> 21 then take (nat n) ds @ ''.'' @ drop (nat n) ds
       else ''0.'' @ replicate (nat (- n)) CHR ''0'' @ ds)"
    using n_lo n_hi by (simp add: pos_toString_def st Let_def ds_def k_def n_def)
  show ?thesis
  proof (cases "0 \<le> e")
    case True
    then have str: "pos_toString s0 e0 = ds @ replicate (nat e) CHR ''0''"
      using n_hi by (simp add: unfold n_def)
    let ?ws = "ds @ replicate (nat e) CHR ''0''"
    have wd: "list_all is_digit ?ws" using dig by (simp add: zeros_digits)
    have wne: "?ws \<noteq> []" using ne by simp
    have jj: "j = nat e + 9" using True by (simp add: j_def)
    have "ether_to_wei z ?ws = Inr (int (parse_nat ?ws) * 10 ^ 9)"
      by (rule ether_to_wei_whole [OF wne wd])
    also have "int (parse_nat ?ws) * 10 ^ 9 = int (s * 10 ^ nat (e + 9))"
      using jj by (simp add: parse_nat_pad val power_add j_def)
    finally show ?thesis
      using digits_body [OF wd] wne by (simp add: str)
  next
    case False
    then have eneg: "e < 0" by simp
    define f where "f = nat (- e)"
    have f: "1 \<le> f" "f \<le> 9" "j = 9 - f" "e = - int f"
      using eneg e by (simp_all add: f_def j_def)
    show ?thesis
    proof (cases "0 < n")
      case True
      define i where "i = nat n"
      have i: "1 \<le> i" "i < k" "k - i = f" "n = int i"
        using True eneg f(4) by (simp_all add: i_def n_def)
      have str: "pos_toString s0 e0 = take i ds @ ''.'' @ drop i ds"
        using True n_hi eneg by (simp add: unfold i_def n_def)
      let ?ws = "take i ds" and ?fs = "drop i ds"
      have wd: "list_all is_digit ?ws" "list_all is_digit ?fs"
        using dig by (auto simp: list_all_iff dest: in_set_takeD in_set_dropD)
      have wne: "?ws \<noteq> []" "?fs \<noteq> []" using i ne by (simp_all add: k_def)
      have flen2: "length ds - i = f" using i(3) by (simp add: k_def)
      have flen: "length ?fs = f" using flen2 by simp
      have split: "s = parse_nat ?ws * 10 ^ f + parse_nat ?fs"
        using parse_nat_append [of ?ws ?fs] val flen by simp
      have "ether_to_wei z (?ws @ ''.'' @ ?fs)
              = Inr (int (parse_nat ?ws) * 10 ^ 9 + int (parse_nat ?fs) * 10 ^ (9 - length ?fs))"
        using f(2) flen by (intro ether_to_wei_point wne wd) simp
      also have "int (parse_nat ?ws) * 10 ^ 9 + int (parse_nat ?fs) * 10 ^ (9 - length ?fs)
                   = int (s * 10 ^ j)"
      proof -
        have "(10::nat) ^ 9 = 10 ^ f * 10 ^ j"
          using f(2,3) by (simp add: power_add [symmetric])
        then have "s * 10 ^ j = parse_nat ?ws * 10 ^ 9 + parse_nat ?fs * 10 ^ j"
          by (subst split) (simp add: algebra_simps)
        then show ?thesis by (simp add: flen2 f(3))
      qed
      finally show ?thesis
        using digits_body [OF wd(1)] digits_body [OF wd(2)] wne by (simp add: str j_def)
    next
      case False
      then have nle: "n \<le> 0" by simp
      define q where "q = nat (- n)"
      let ?fs = "replicate q CHR ''0'' @ ds"
      have str: "pos_toString s0 e0 = ''0'' @ ''.'' @ ?fs"
        using nle eneg k1 by (simp add: unfold q_def n_def)
      have flen: "length ?fs = f"
        using nle f(4) by (simp add: q_def n_def k_def)
      have fd: "list_all is_digit ?fs" using dig by (simp add: zeros_digits)
      have fne: "?fs \<noteq> []" using ne by simp
      have zd: "list_all is_digit ''0''" "''0'' \<noteq> []" by (simp_all add: is_digit_def)
      have "ether_to_wei z (''0'' @ ''.'' @ ?fs)
              = Inr (int (parse_nat ''0'') * 10 ^ 9 + int (parse_nat ?fs) * 10 ^ (9 - length ?fs))"
        using f(2) flen by (intro ether_to_wei_point zd fd fne) simp
      also have "int (parse_nat ''0'') * 10 ^ 9 + int (parse_nat ?fs) * 10 ^ (9 - length ?fs)
                   = int (s * 10 ^ j)"
        by (simp only: flen parse_nat_lead val f(3))
           (simp add: parse_nat_def digit_val_def is_digit_def)
      finally show ?thesis
        using digits_body [OF fd] by (simp add: str j_def is_digit_def)
    qed
  qed
qed

lemma gwei_to_wei_strip:
  assumes m: "m \<noteq> 0" and w: "gwei_to_wei (Fin m e0) = Some w"
    and st: "strip10 (nat \<bar>m\<bar>) e0 = (s, e)"
  shows "- 9 \<le> e \<and> \<bar>w\<bar> = int (s * 10 ^ nat (e + 9)) \<and> (w < 0 \<longleftrightarrow> m < 0)"
proof -
  define i where "i = nat (e - e0)"
  from m have s0: "0 < nat \<bar>m\<bar>" by simp
  from strip10_props [OF s0 st]
  have p: "0 < s" "\<not> 10 dvd s" "e0 \<le> e" "s * 10 ^ i = nat \<bar>m\<bar>"
    by (simp_all add: i_def)
  from p(4) have abs_m: "\<bar>m\<bar> = int s * 10 ^ i"
    by (metis int_nat_eq abs_ge_zero of_nat_mult of_nat_power of_nat_numeral)
  show ?thesis
  proof (cases "0 \<le> e0 + 9")
    case True
    with w have weq: "w = m * 10 ^ nat (e0 + 9)" by simp
    have "nat (e + 9) = i + nat (e0 + 9)" using True p(3) by (simp add: i_def)
    then have "\<bar>w\<bar> = int (s * 10 ^ nat (e + 9))"
      by (simp add: weq abs_mult abs_m power_add)
    moreover have "w < 0 \<longleftrightarrow> m < 0"
      by (simp add: weq mult_less_0_iff)
    ultimately show ?thesis using True p(3) by simp
  next
    case False
    define d where "d = nat (- (e0 + 9))"
    from False w have dv: "(10::int) ^ d dvd m" and weq: "w = m div 10 ^ d"
      by (simp_all add: d_def split: if_splits)
    from dv have mw: "m = w * 10 ^ d" by (simp add: weq)
    have di: "d \<le> i"
    proof (rule ccontr)
      assume "\<not> d \<le> i"
      then have "Suc i \<le> d" by simp
      then have "(10::int) ^ Suc i dvd 10 ^ d" by (rule le_imp_power_dvd)
      then have "(10::int) ^ Suc i dvd \<bar>m\<bar>" using dv by (simp add: dvd_trans)
      then have "(10::int) * 10 ^ i dvd int s * 10 ^ i" by (simp add: abs_m)
      then have "(10::int) dvd int s" by simp
      then have "10 dvd s" by presburger
      with p(2) show False by simp
    qed
    then obtain r where r: "i = d + r" by (auto simp: le_iff_add)
    have "\<bar>w\<bar> * 10 ^ d = int s * 10 ^ r * 10 ^ d"
      using abs_m by (simp add: mw abs_mult r power_add)
    then have aw: "\<bar>w\<bar> = int s * 10 ^ r" by simp
    have e9: "int r = e + 9"
      using r False p(3) by (simp add: i_def d_def)
    then have "nat (e + 9) = r" by simp
    then have "\<bar>w\<bar> = int (s * 10 ^ nat (e + 9))" using aw by simp
    moreover have "w < 0 \<longleftrightarrow> m < 0" by (simp add: mw mult_less_0_iff)
    moreover have "- 9 \<le> e" using e9 by simp
    ultimately show ?thesis by simp
  qed
qed

text \<open>
  Printing a number and converting the text is exact whenever the product with \<open>10 ^ 9\<close>
  is an integer that is zero or has between 4 and 30 digits.
\<close>

lemma toWei_gwei_num_toString:
  assumes w: "gwei_to_wei (Fin m e0) = Some w"
    and range: "w = 0 \<or> 1000 \<le> \<bar>w\<bar> \<and> \<bar>w\<bar> < 10 ^ 30"
  shows "toWei_gwei (num_toString (Fin m e0)) = Inr (int_toString w)"
proof (cases "m = 0")
  case True
  with w have w0: "w = 0" by (simp split: if_splits)
  have z: "''0'' \<noteq> []" "list_all is_digit ''0''" by (simp_all add: is_digit_def)
  have "ether_to_wei ''0'' ''0'' = Inr (int (parse_nat ''0'') * 10 ^ 9)"
    by (rule ether_to_wei_whole [OF z])
  then have "ether_to_wei ''0'' ''0'' = Inr 0"
    by (simp add: parse_nat_def digit_val_def is_digit_def)
  then have "toWei_gwei ''0'' = Inr (int_toString 0)"
    by (intro toWei_gwei_unsigned z(1) digits_body z(2))
  then show ?thesis by (simp add: True w0)
next
  case False
  obtain s e where st: "strip10 (nat \<bar>m\<bar>) e0 = (s, e)" by (cases "strip10 (nat \<bar>m\<bar>) e0")
  from gwei_to_wei_strip [OF False w st]
  have g: "- 9 \<le> e" "\<bar>w\<bar> = int (s * 10 ^ nat (e + 9))" "w < 0 \<longleftrightarrow> m < 0"
    by simp_all
  from False have s0: "0 < nat \<bar>m\<bar>" by simp
  from strip10_props [OF s0 st] have "0 < s" by simp
  then have "w \<noteq> 0" using g(2) by auto
  with range have r: "1000 \<le> \<bar>w\<bar>" "\<bar>w\<bar> < 10 ^ 30" by simp_all
  have lo: "1000 \<le> s * 10 ^ nat (e + 9)" using r(1) unfolding g(2) by linarith
  have hi: "s * 10 ^ nat (e + 9) < 10 ^ 30"
  proof -
    have "int (s * 10 ^ nat (e + 9)) < int (10 ^ 30)" using r(2) unfolding g(2) by simp
    then show ?thesis by (simp only: of_nat_less_iff)
  qed
  let ?x = "pos_toString (nat \<bar>m\<bar>) e0"
  show ?thesis
  proof (cases "m < 0")
    case True
    from pos_toString_to_wei [OF s0 st g(1) lo hi, of "''-'' @ ?x"]
    have x: "?x \<noteq> []" "list_all (\<lambda>c. is_digit c \<or> c = CHR ''.'') ?x"
      "ether_to_wei (''-'' @ ?x) ?x = Inr (int (s * 10 ^ nat (e + 9)))"
      by simp_all
    have "toWei_gwei (''-'' @ ?x) = Inr (int_toString (- int (s * 10 ^ nat (e + 9))))"
      by (rule toWei_gwei_signed [OF x])
    moreover have "w = - int (s * 10 ^ nat (e + 9))" using g(2,3) True by linarith
    moreover have "num_toString (Fin m e0) = ''-'' @ ?x"
      using True by (simp add: abs_if)
    ultimately show ?thesis by simp
  next
    case pos: False
    from pos_toString_to_wei [OF s0 st g(1) lo hi, of ?x]
    have x: "?x \<noteq> []" "list_all (\<lambda>c. is_digit c \<or> c = CHR ''.'') ?x"
      "ether_to_wei ?x ?x = Inr (int (s * 10 ^ nat (e + 9)))"
      by simp_all
    have "toWei_gwei ?x = Inr (int_toString (int (s * 10 ^ nat (e + 9))))"
      by (rule toWei_gwei_unsigned [OF x])
    moreover have "w = int (s * 10 ^ nat (e + 9))" using g(2,3) pos by linarith
    moreover have "num_toString (Fin m e0) = ?x"
      using pos False by (simp add: abs_if)
    ultimately show ?thesis by simp
  qed
qed

subsection \<open>Evaluating concrete runs\<close>

lemma replicate_numeral: "replicate (numeral k) x = x # replicate (pred_numeral k) x"
  by (simp add: numeral_eq_Suc)

lemmas print_defs =
  int_toString_def digits_of.simps digit_char_def pos_toString_def strip10.simps

lemmas toWei_defs =
  toWei_gwei_def ether_to_wei_def number_like_def is_digit_def parse_nat_def digit_val_def
  replicate_numeral

section \<open>The claims\<close>

text \<open>
  C1. A refresh cycle never overwrites \<open>cachedGasPrice\<close> with an unset or falsy value:
  after a cycle the variable either holds what it held before, or a truthy value that the
  oracle fetch returned, or (the oracle fetch having failed) a truthy value that the
  contract call returned. So cycles keep a truthy value truthy and a set value set, and
  after \<open>start\<close> has put the configured fallback into the variable it is never unset, however
  many cycles complete and whatever they fetch.
\<close>

theorem refresh_never_unsets_cachedGasPrice:
  "(cachedGasPrice (refresh K W t st) = cachedGasPrice st
    \<or> truthy (cachedGasPrice (refresh K W t st))
      \<and> ((\<exists>r. fetchGasPriceFromOracle K W (oracleUrl t) (speedType t) = Inr r
               \<and> oracleGasPrice r = cachedGasPrice (refresh K W t st))
         \<or> (\<exists>e. fetchGasPriceFromOracle K W (oracleUrl t) (speedType t) = Inl e)
           \<and> contract_gasPrice W (bridgeContract t) = Inr (cachedGasPrice (refresh K W t st))))
   \<and> (truthy (cachedGasPrice st) \<longrightarrow> truthy (cachedGasPrice (refresh_all K cycles st)))
   \<and> (\<not> unset (cachedGasPrice st) \<longrightarrow> \<not> unset (cachedGasPrice (refresh_all K cycles st)))
   \<and> (HOME_GAS_PRICE_FALLBACK E = Some d
        \<longrightarrow> \<not> unset (cachedGasPrice
                       (refresh_all K cycles (snd (start K E (Str ''home'') st0)))))
   \<and> (FOREIGN_GAS_PRICE_FALLBACK E = Some d
        \<longrightarrow> \<not> unset (cachedGasPrice
                       (refresh_all K cycles (snd (start K E (Str ''foreign'') st0)))))"
proof -
  have home: "\<not> unset (cachedGasPrice (refresh_all K cycles (snd (start K E (Str ''home'') st0))))"
    if "HOME_GAS_PRICE_FALLBACK E = Some d"
    using that by (intro refresh_all_set) (simp add: start_home_cachedGasPrice unset_def)
  have foreign:
    "\<not> unset (cachedGasPrice (refresh_all K cycles (snd (start K E (Str ''foreign'') st0))))"
    if "FOREIGN_GAS_PRICE_FALLBACK E = Some d"
    using that by (intro refresh_all_set) (simp add: start_foreign_cachedGasPrice unset_def)
  show ?thesis
    using refresh_replaces [of K W t st] refresh_all_truthy [of st K cycles]
      refresh_all_set [of st K cycles] home foreign
    by blast
qed

theorem refresh_never_unsets_cachedGasPrice_witness:
  "HOME_GAS_PRICE_FALLBACK example_env = Some ''1000000000''
   \<and> \<not> unset (cachedGasPrice
        (refresh_all example_constants
           [(world_down, home_task), (world_contract_only, home_task), (world_down, home_task)]
           (snd (start example_constants example_env (Str ''home'') initial_state))))
   \<and> cachedGasPrice
        (refresh_all example_constants
           [(world_down, home_task), (world_contract_only, home_task), (world_down, home_task)]
           (snd (start example_constants example_env (Str ''home'') initial_state)))
     = Str ''7000000000''
   \<and> cachedGasPrice
        (refresh_all example_constants [(world_down, home_task)]
           (snd (start example_constants example_env (Str ''home'') initial_state)))
     = Str ''1000000000''"
proof -
  have h: "HOME_GAS_PRICE_FALLBACK example_env = Some ''1000000000''"
    by (simp add: example_env_def)
  have s: "cachedGasPrice (snd (start example_constants example_env (Str ''home'') initial_state))
             = Str ''1000000000''"
    by (simp add: start_home_cachedGasPrice h)
  from refresh_never_unsets_cachedGasPrice
         [of example_constants world_down home_task initial_state
             "[(world_down, home_task), (world_contract_only, home_task), (world_down, home_task)]"
             example_env "''1000000000''" initial_state]
  have "\<not> unset (cachedGasPrice
        (refresh_all example_constants
           [(world_down, home_task), (world_contract_only, home_task), (world_down, home_task)]
           (snd (start example_constants example_env (Str ''home'') initial_state))))"
    using h by blast
  then show ?thesis
    using h s by (simp add: world_down_refresh world_contract_only_refresh)
qed

text \<open>
  C2. When the oracle thunk fails and the contract call fails too, \<open>fetchGasPrice\<close>
  returns \<^verbatim>\<open>null\<close> for both the gas price and the speed table, and the callback's two
  assignments leave the module state as it was, \<open>cachedGasPrice\<close> and
  \<open>cachedGasPriceOracleSpeeds\<close> included.
\<close>

theorem fetchGasPrice_total_failure:
  assumes "oracleFn () = Inl e" and "contract_gasPrice W b = Inl e'"
  shows "fst (fetchGasPrice W b oracleFn) = \<lparr>gasPrice = Null, oracleGasPriceSpeeds = None\<rparr>
       \<and> update_cache (fst (fetchGasPrice W b oracleFn)) st = st"
  using assms by (simp add: fetchGasPrice_fst update_cache_absent)

theorem fetchGasPrice_total_failure_witness:
  "fst (fetchGasPrice world_down homeBridge
          (\<lambda>_. fetchGasPriceFromOracle example_constants world_down (Str ''https://home.example/gas'') (Str ''fast'')))
     = \<lparr>gasPrice = Null, oracleGasPriceSpeeds = None\<rparr>
   \<and> update_cache
        (fst (fetchGasPrice world_down homeBridge
                (\<lambda>_. fetchGasPriceFromOracle example_constants world_down (Str ''https://home.example/gas'') (Str ''fast''))))
        initial_state
     = initial_state"
proof -
  have o: "(\<lambda>_. fetchGasPriceFromOracle example_constants world_down (Str ''https://home.example/gas'') (Str ''fast'')) ()
             = Inl (Error ''request failed'')"
    by (simp add: fetchGasPriceFromOracle_def world_down_def)
  have c: "contract_gasPrice world_down homeBridge = Inl (Error ''call reverted'')"
    by (simp add: world_down_def)
  show ?thesis
    by (rule fetchGasPrice_total_failure [OF o c])
qed

text \<open>
  C3. When the oracle thunk fails and the contract call returns \<open>v\<close>, \<open>fetchGasPrice\<close>
  returns \<open>v\<close> itself as the gas price (not converted, not clamped) and \<^verbatim>\<open>null\<close> as the
  speed table, so the callback leaves \<open>cachedGasPriceOracleSpeeds\<close> as it was.
\<close>

theorem fetchGasPrice_fallback:
  assumes "oracleFn () = Inl e" and "contract_gasPrice W b = Inr v"
  shows "fst (fetchGasPrice W b oracleFn) = \<lparr>gasPrice = v, oracleGasPriceSpeeds = None\<rparr>
       \<and> cachedGasPriceOracleSpeeds (update_cache (fst (fetchGasPrice W b oracleFn)) st)
           = cachedGasPriceOracleSpeeds st"
  using assms by (simp add: fetchGasPrice_fst update_cache_speeds)

theorem fetchGasPrice_fallback_witness:
  "fst (fetchGasPrice world_contract_only homeBridge (\<lambda>_. Inl (Error ''request failed'')))
     = \<lparr>gasPrice = Str ''7000000000'', oracleGasPriceSpeeds = None\<rparr>
   \<and> cachedGasPriceOracleSpeeds
        (update_cache
           (fst (fetchGasPrice world_contract_only homeBridge (\<lambda>_. Inl (Error ''request failed''))))
           (initial_state\<lparr>cachedGasPriceOracleSpeeds := Some [''fast'' \<mapsto> PNum (Fin 50 0)]\<rparr>))
     = cachedGasPriceOracleSpeeds
         (initial_state\<lparr>cachedGasPriceOracleSpeeds := Some [''fast'' \<mapsto> PNum (Fin 50 0)]\<rparr>)"
proof -
  have o: "(\<lambda>_. Inl (Error ''request failed'') :: jserror + oracle_result) ()
             = Inl (Error ''request failed'')"
    by simp
  have c: "contract_gasPrice world_contract_only homeBridge = Inr (Str ''7000000000'')"
    by (simp add: world_contract_only_def)
  show ?thesis
    by (rule fetchGasPrice_fallback [OF o c])
qed

text \<open>
  C4. The claim is that \<open>getPrice\<close> never fails, a request for a named speed before any
  oracle fetch has succeeded included. The run below is \<open>start\<close> for the home chain followed
  by one refresh cycle in which only the contract answers: the speed table is still
  \<^verbatim>\<open>null\<close>, and the request for the speed \<^verbatim>\<open>fast\<close> throws a \<^verbatim>\<open>TypeError\<close> instead of falling
  through to the cached value.
\<close>

theorem getPrice_speed_before_oracle:
  "cachedGasPriceOracleSpeeds
     (refresh example_constants world_contract_only home_task
        (snd (start example_constants example_env (Str ''home'') initial_state))) = None
   \<and> fst (getPrice example_constants (Some \<lparr>opt_type = Str ''speed'', opt_value = Str ''fast''\<rparr>)
         (refresh example_constants world_contract_only home_task
            (snd (start example_constants example_env (Str ''home'') initial_state))))
     = Inl (TypeError (''Cannot read property '' @ [CHR 0x27] @ ''fast'' @ [CHR 0x27] @ '' of null''))"
  by (simp add: getPrice_def processGasPriceOptions_def example_constants_def initial_state_def
      start_def clearInterval_def setIntervalAndRun_def world_contract_only_refresh)

text \<open>
  C5. For a chain id that is neither \<^verbatim>\<open>'home'\<close> nor \<^verbatim>\<open>'foreign'\<close>, \<open>start\<close> throws the
  error "Unrecognized chainId", leaves \<open>cachedGasPrice\<close>, \<open>cachedGasPriceOracleSpeeds\<close> and
  \<open>fetchGasPriceInterval\<close> as they were, and registers no timer: every timer that is active
  afterwards was active before.
\<close>

theorem start_unrecognized:
  assumes "chainId \<noteq> Str ''home''" and "chainId \<noteq> Str ''foreign''"
  shows "fst (start K E chainId st) = Inl (Error (unrecognized_message chainId))
       \<and> cachedGasPrice (snd (start K E chainId st)) = cachedGasPrice st
       \<and> cachedGasPriceOracleSpeeds (snd (start K E chainId st)) = cachedGasPriceOracleSpeeds st
       \<and> fetchGasPriceInterval (snd (start K E chainId st)) = fetchGasPriceInterval st
       \<and> set (timers (snd (start K E chainId st))) \<subseteq> set (timers st)
       \<and> next_handle (snd (start K E chainId st)) = next_handle st"
  using assms by (auto simp: start_def clearInterval_def)

theorem start_unrecognized_witness:
  "fst (start example_constants example_env (Str ''unknown'') initial_state)
     = Inl (Error (''Unrecognized chainId '' @ [CHR 0x27] @ ''unknown'' @ [CHR 0x27]))
   \<and> cachedGasPrice (snd (start example_constants example_env (Str ''unknown'') initial_state)) = Null
   \<and> cachedGasPriceOracleSpeeds
        (snd (start example_constants example_env (Str ''unknown'') initial_state)) = None
   \<and> timers (snd (start example_constants example_env (Str ''unknown'') initial_state)) = []"
  using start_unrecognized [of "Str ''unknown''" example_constants example_env initial_state]
  by (simp add: unrecognized_message_def initial_state_def)

text \<open>
  C6, as amended. Let the parsed oracle response hold a truthy number \<open>v\<close> for the
  configured speed type, let \<open>c\<close> be the number that \<open>gasPriceWithinLimits\<close> returns for \<open>v\<close>
  (for a number it always returns one), and let the product of \<open>c\<close> with \<open>10 ^ 9\<close> be an
  integer \<open>w\<close> that is zero or has absolute value from \<open>10 ^ 3\<close> up to, but not including,
  \<open>10 ^ 30\<close> (\<open>c\<close> then prints in plain notation with at most nine decimals).
  Then \<open>fetchGasPriceFromOracle\<close> returns \<open>w\<close>, exactly and in decimal, as the gas price and
  the whole parsed response, unconverted, as the speed table. The bounds are applied
  before the conversion.
\<close>

theorem fetchGasPriceFromOracle_converts:
  assumes "http_json W url = Inr json"
    and "json (js_ToString speedType') = Some (PNum v)" and "num_truthy v"
    and "gasPriceWithinLimits K (PNum v) = Inr (PNum c)" and "gwei_to_wei c = Some w"
    and "w = 0 \<or> 1000 \<le> \<bar>w\<bar> \<and> \<bar>w\<bar> < 10 ^ 30"
  shows "fetchGasPriceFromOracle K W url speedType'
           = Inr \<lparr>oracleGasPrice = Str (int_toString w), oracleResponse = json\<rparr>"
proof -
  obtain m e where c: "c = Fin m e"
    using assms(5) by (cases c) simp_all
  have "toWei_gwei (num_toString c) = Inr (int_toString w)"
    using assms(5,6) unfolding c by (rule toWei_gwei_num_toString)
  then show ?thesis
    using assms(1-4) by (simp add: fetchGasPriceFromOracle_def get_property_def)
qed

text \<open>
  The spec's example (\<^verbatim>\<open>{"fast": 50}\<close> gives \<open>50 * 10 ^ 9\<close>), a value above the maximum,
  and a fractional value.
\<close>

theorem fetchGasPriceFromOracle_converts_witness:
  "fetchGasPriceFromOracle example_constants (world_oracle [''fast'' \<mapsto> PNum (Fin 50 0)])
     (Str ''https://home.example/gas'') (Str ''fast'')
     = Inr \<lparr>oracleGasPrice = Str ''50000000000'', oracleResponse = [''fast'' \<mapsto> PNum (Fin 50 0)]\<rparr>
   \<and> fetchGasPriceFromOracle example_constants
       (world_oracle [''fast'' \<mapsto> PNum (Fin 150 0), ''slow'' \<mapsto> PNum (Fin 25 (- 1))])
       (Str ''https://home.example/gas'') (Str ''fast'')
     = Inr \<lparr>oracleGasPrice = Str ''100000000000'',
            oracleResponse = [''fast'' \<mapsto> PNum (Fin 150 0), ''slow'' \<mapsto> PNum (Fin 25 (- 1))]\<rparr>
   \<and> fetchGasPriceFromOracle example_constants
       (world_oracle [''fast'' \<mapsto> PNum (Fin 150 0), ''slow'' \<mapsto> PNum (Fin 25 (- 1))])
       (Str ''https://home.example/gas'') (Str ''slow'')
     = Inr \<lparr>oracleGasPrice = Str ''2500000000'',
            oracleResponse = [''fast'' \<mapsto> PNum (Fin 150 0), ''slow'' \<mapsto> PNum (Fin 25 (- 1))]\<rparr>"
proof -
  let ?t = "[''fast'' \<mapsto> PNum (Fin 150 0), ''slow'' \<mapsto> PNum (Fin 25 (- 1))]"
  have a: "fetchGasPriceFromOracle example_constants (world_oracle [''fast'' \<mapsto> PNum (Fin 50 0)])
             (Str ''https://home.example/gas'') (Str ''fast'')
           = Inr \<lparr>oracleGasPrice = Str (int_toString 50000000000),
                  oracleResponse = [''fast'' \<mapsto> PNum (Fin 50 0)]\<rparr>"
    by (rule fetchGasPriceFromOracle_converts [where v = "Fin 50 0" and c = "Fin 50 0"])
       (simp_all add: world_oracle_def example_constants_def gasPriceWithinLimits_def
          prop_lt_def prop_gt_def num_gt_def fin_lt_def)
  have b: "fetchGasPriceFromOracle example_constants (world_oracle ?t)
             (Str ''https://home.example/gas'') (Str ''fast'')
           = Inr \<lparr>oracleGasPrice = Str (int_toString 100000000000), oracleResponse = ?t\<rparr>"
    by (rule fetchGasPriceFromOracle_converts [where v = "Fin 150 0" and c = "Fin 100 0"])
       (simp_all add: world_oracle_def example_constants_def gasPriceWithinLimits_def
          prop_lt_def prop_gt_def num_gt_def fin_lt_def)
  have c: "fetchGasPriceFromOracle example_constants (world_oracle ?t)
             (Str ''https://home.example/gas'') (Str ''slow'')
           = Inr \<lparr>oracleGasPrice = Str (int_toString 2500000000), oracleResponse = ?t\<rparr>"
    by (rule fetchGasPriceFromOracle_converts [where v = "Fin 25 (- 1)" and c = "Fin 25 (- 1)"])
       (simp_all add: world_oracle_def example_constants_def gasPriceWithinLimits_def
          prop_lt_def prop_gt_def num_gt_def fin_lt_def)
  have p: "int_toString 50000000000 = ''50000000000''"
    "int_toString 100000000000 = ''100000000000''"
    "int_toString 2500000000 = ''2500000000''"
    by (simp_all add: print_defs)
  from a b c show ?thesis unfolding p by (intro conjI)
qed

text \<open>
  C6 as stated fails. With the bounds 1 and 100, \<^verbatim>\<open>1.0000000001\<close> is truthy and within
  the bounds, but it has ten decimals: the conversion of its text is rejected and
  \<open>fetchGasPriceFromOracle\<close> throws instead of returning a gas price. With the bounds 0 and
  100, \<^verbatim>\<open>0.0000001\<close> is truthy and within the bounds, but it prints as \<^verbatim>\<open>1e-7\<close>, which the
  conversion rejects as well.
\<close>

theorem fetchGasPriceFromOracle_ten_decimals_counterexample:
  "num_truthy (Fin 10000000001 (- 10))
   \<and> gasPriceWithinLimits example_constants (PNum (Fin 10000000001 (- 10)))
     = Inr (PNum (Fin 10000000001 (- 10)))
   \<and> fetchGasPriceFromOracle example_constants
       (world_oracle [''fast'' \<mapsto> PNum (Fin 10000000001 (- 10))])
       (Str ''https://home.example/gas'') (Str ''fast'')
     = Inl (Error ''[ethjs-unit] while converting number 1.0000000001 to wei, too many decimal places'')
   \<and> num_truthy (Fin 1 (- 7))
   \<and> gasPriceWithinLimits (example_constants\<lparr>GAS_PRICE_BOUNDARIES_MIN := Fin 0 0\<rparr>)
       (PNum (Fin 1 (- 7)))
     = Inr (PNum (Fin 1 (- 7)))
   \<and> fetchGasPriceFromOracle (example_constants\<lparr>GAS_PRICE_BOUNDARIES_MIN := Fin 0 0\<rparr>)
       (world_oracle [''fast'' \<mapsto> PNum (Fin 1 (- 7))])
       (Str ''https://home.example/gas'') (Str ''fast'')
     = Inl (Error (''while converting number to string, invalid number value '' @ [CHR 0x27]
                    @ ''1e-7'' @ [CHR 0x27] @ '', should be a number matching (^-?[0-9.]+).''))"
proof -
  have c: "gasPriceWithinLimits example_constants (PNum (Fin 10000000001 (- 10)))
             = Inr (PNum (Fin 10000000001 (- 10)))"
    by (simp add: example_constants_def gasPriceWithinLimits_def prop_lt_def prop_gt_def
        num_gt_def fin_lt_def)
  have p: "num_toString (Fin 10000000001 (- 10)) = ''1.0000000001''"
    by (simp add: print_defs)
  have t: "toWei_gwei ''1.0000000001''
     = Inl (Error ''[ethjs-unit] while converting number 1.0000000001 to wei, too many decimal places'')"
    by (simp add: toWei_defs)
  have c': "gasPriceWithinLimits (example_constants\<lparr>GAS_PRICE_BOUNDARIES_MIN := Fin 0 0\<rparr>)
              (PNum (Fin 1 (- 7))) = Inr (PNum (Fin 1 (- 7)))"
    by (simp add: example_constants_def gasPriceWithinLimits_def prop_lt_def prop_gt_def
        num_gt_def fin_lt_def)
  have p': "num_toString (Fin 1 (- 7)) = ''1e-7''"
    by (simp add: print_defs)
  have t': "toWei_gwei ''1e-7''
     = Inl (Error (''while converting number to string, invalid number value '' @ [CHR 0x27]
                    @ ''1e-7'' @ [CHR 0x27] @ '', should be a number matching (^-?[0-9.]+).''))"
    by (simp add: toWei_defs)
  show ?thesis
    by (simp add: c p t c' p' t' fetchGasPriceFromOracle_def world_oracle_def get_property_def
        del: num_toString.simps)
qed

text \<open>
  C7, as amended. When the parsed oracle response holds a falsy value for the configured
  speed type, or has no property of that name and the name is not one that every object
  inherits from \<^verbatim>\<open>Object.prototype\<close>, \<open>fetchGasPriceFromOracle\<close> throws an error whose message
  contains the speed type; no default is substituted.
\<close>

theorem fetchGasPriceFromOracle_missing_speed:
  assumes "http_json W url = Inr json"
    and "(json (js_ToString speedType') = None \<and> Object_prototype (js_ToString speedType') = None)
         \<or> (\<exists>v. json (js_ToString speedType') = Some v \<and> \<not> prop_truthy v)"
  shows "fetchGasPriceFromOracle K W url speedType' =
           Inl (Error (''Response from Oracle didn'' @ [CHR 0x27] @ ''t include gas price for ''
                        @ js_ToString speedType' @ '' type.''))"
  using assms
  by (auto simp: fetchGasPriceFromOracle_def missing_speed_message_def get_property_def)

text \<open>
  The spec's example (\<^verbatim>\<open>{"slow": 10}\<close> asked for \<^verbatim>\<open>fast\<close>), and the falsy values \<^verbatim>\<open>0\<close>,
  \<^verbatim>\<open>null\<close>, \<^verbatim>\<open>false\<close> and the empty string.
\<close>

theorem fetchGasPriceFromOracle_missing_speed_witness:
  "fetchGasPriceFromOracle example_constants (world_oracle [''slow'' \<mapsto> PNum (Fin 10 0)])
     (Str ''https://home.example/gas'') (Str ''fast'')
     = Inl (Error (''Response from Oracle didn'' @ [CHR 0x27]
                    @ ''t include gas price for fast type.''))
   \<and> fetchGasPriceFromOracle example_constants (world_oracle [''fast'' \<mapsto> PNum (Fin 0 0)])
     (Str ''https://home.example/gas'') (Str ''fast'')
     = Inl (Error (''Response from Oracle didn'' @ [CHR 0x27]
                    @ ''t include gas price for fast type.''))
   \<and> fetchGasPriceFromOracle example_constants (world_oracle [''fast'' \<mapsto> PNull])
     (Str ''https://home.example/gas'') (Str ''fast'')
     = Inl (Error (''Response from Oracle didn'' @ [CHR 0x27]
                    @ ''t include gas price for fast type.''))
   \<and> fetchGasPriceFromOracle example_constants (world_oracle [''fast'' \<mapsto> PBool False])
     (Str ''https://home.example/gas'') (Str ''fast'')
     = Inl (Error (''Response from Oracle didn'' @ [CHR 0x27]
                    @ ''t include gas price for fast type.''))
   \<and> fetchGasPriceFromOracle example_constants (world_oracle [''fast'' \<mapsto> PStr [] (Fin 0 0)])
     (Str ''https://home.example/gas'') (Str ''fast'')
     = Inl (Error (''Response from Oracle didn'' @ [CHR 0x27]
                    @ ''t include gas price for fast type.''))"
proof -
  have inh: "Object_prototype ''fast'' = None"
    by (simp add: Object_prototype_def)
  have falsy: "fetchGasPriceFromOracle example_constants (world_oracle [''fast'' \<mapsto> v])
       (Str ''https://home.example/gas'') (Str ''fast'')
     = Inl (Error (''Response from Oracle didn'' @ [CHR 0x27]
                    @ ''t include gas price for fast type.''))"
    if "\<not> prop_truthy v" for v
    using fetchGasPriceFromOracle_missing_speed
            [of "world_oracle [''fast'' \<mapsto> v]" "Str ''https://home.example/gas''"
                "[''fast'' \<mapsto> v]" "Str ''fast''" example_constants] that
    by (simp add: world_oracle_def)
  have absent: "fetchGasPriceFromOracle example_constants
       (world_oracle [''slow'' \<mapsto> PNum (Fin 10 0)])
       (Str ''https://home.example/gas'') (Str ''fast'')
     = Inl (Error (''Response from Oracle didn'' @ [CHR 0x27]
                    @ ''t include gas price for fast type.''))"
    using fetchGasPriceFromOracle_missing_speed
            [of "world_oracle [''slow'' \<mapsto> PNum (Fin 10 0)]" "Str ''https://home.example/gas''"
                "[''slow'' \<mapsto> PNum (Fin 10 0)]" "Str ''fast''" example_constants] inh
    by (simp add: world_oracle_def)
  show ?thesis
    using absent falsy [of "PNum (Fin 0 0)"] falsy [of PNull] falsy [of "PBool False"]
      falsy [of "PStr [] (Fin 0 0)"]
    by simp
qed

text \<open>
  C7 as stated fails: the response \<^verbatim>\<open>{"slow": 10}\<close> has no property \<^verbatim>\<open>constructor\<close>, but
  with that name as the speed type the lookup finds the function that every object
  inherits. It is truthy, so the missing-speed error is not thrown; it compares as \<^verbatim>\<open>NaN\<close>
  with both bounds and is returned by \<open>gasPriceWithinLimits\<close>, and the conversion of its
  text throws an error that does not name the speed type.
\<close>

theorem fetchGasPriceFromOracle_inherited_key_counterexample:
  "[''slow'' \<mapsto> PNum (Fin 10 0)] (js_ToString (Str ''constructor'')) = None
   \<and> fetchGasPriceFromOracle example_constants (world_oracle [''slow'' \<mapsto> PNum (Fin 10 0)])
       (Str ''https://home.example/gas'') (Str ''constructor'')
     = Inl (Error (''while converting number to string, invalid number value '' @ [CHR 0x27]
                    @ ''function Object() { [native code] }'' @ [CHR 0x27]
                    @ '', should be a number matching (^-?[0-9.]+).''))
   \<and> fetchGasPriceFromOracle example_constants (world_oracle [''slow'' \<mapsto> PNum (Fin 10 0)])
       (Str ''https://home.example/gas'') (Str ''constructor'')
     \<noteq> Inl (Error (''Response from Oracle didn'' @ [CHR 0x27]
                    @ ''t include gas price for constructor type.''))"
proof -
  have t: "toWei_gwei ''function Object() { [native code] }''
     = Inl (Error (''while converting number to string, invalid number value '' @ [CHR 0x27]
                    @ ''function Object() { [native code] }'' @ [CHR 0x27]
                    @ '', should be a number matching (^-?[0-9.]+).''))"
    by (simp add: toWei_defs)
  have f: "fetchGasPriceFromOracle example_constants
       (world_oracle [''slow'' \<mapsto> PNum (Fin 10 0)])
       (Str ''https://home.example/gas'') (Str ''constructor'')
     = Inl (Error (''while converting number to string, invalid number value '' @ [CHR 0x27]
                    @ ''function Object() { [native code] }'' @ [CHR 0x27]
                    @ '', should be a number matching (^-?[0-9.]+).''))"
    using t
    by (simp add: fetchGasPriceFromOracle_def world_oracle_def get_property_def
        Object_prototype_def native_function_def gasPriceWithinLimits_def prop_lt_def
        prop_gt_def num_gt_def example_constants_def)
  show ?thesis
    unfolding f by simp
qed

text \<open>
  C8, as amended. For a request of type \<^verbatim>\<open>GAS_PRICE_OPTIONS.GAS_PRICE\<close> with a truthy value
  \<open>v\<close>, \<open>getPrice\<close> returns \<open>v\<close> itself, whatever the module state holds; no bound is
  applied. With a falsy value the request is treated as no request: the cached gas price
  is returned.
\<close>

theorem getPrice_explicit_value:
  assumes "GAS_PRICE_OPTIONS_GAS_PRICE K \<noteq> []"
  shows "fst (getPrice K (Some \<lparr>opt_type = Str (GAS_PRICE_OPTIONS_GAS_PRICE K), opt_value = v\<rparr>) st)
           = (if truthy v then Inr v else Inr (cachedGasPrice st))"
  using assms by (simp add: getPrice_def processGasPriceOptions_def)

theorem getPrice_explicit_value_witness:
  "GAS_PRICE_OPTIONS_GAS_PRICE example_constants \<noteq> []
   \<and> fst (getPrice example_constants
            (Some \<lparr>opt_type = Str ''gasPrice'', opt_value = Num (Fin 99 0)\<rparr>) initial_state)
       = Inr (Num (Fin 99 0))
   \<and> fst (getPrice example_constants
            (Some \<lparr>opt_type = Str ''gasPrice'', opt_value = Str ''''\<rparr>)
            (initial_state\<lparr>cachedGasPrice := Str ''1000000000''\<rparr>))
       = Inr (Str ''1000000000'')"
proof -
  have h: "GAS_PRICE_OPTIONS_GAS_PRICE example_constants \<noteq> []"
    by (simp add: example_constants_def)
  have g: "GAS_PRICE_OPTIONS_GAS_PRICE example_constants = ''gasPrice''"
    by (simp add: example_constants_def)
  show ?thesis
    using h getPrice_explicit_value [OF h, of "Num (Fin 99 0)" initial_state]
      getPrice_explicit_value [OF h, of "Str ''''" "initial_state\<lparr>cachedGasPrice := Str ''1000000000''\<rparr>"]
    unfolding g by simp
qed

text \<open>
  C8 as stated fails for the value \<open>0\<close>: the guard \<^verbatim>\<open>options.value\<close> is false, and the cached
  gas price is returned instead of \<open>0\<close>.
\<close>

theorem getPrice_explicit_zero_counterexample:
  "fst (getPrice example_constants (Some \<lparr>opt_type = Str ''gasPrice'', opt_value = Num (Fin 0 0)\<rparr>)
         (initial_state\<lparr>cachedGasPrice := Str ''1000000000''\<rparr>))
     = Inr (Str ''1000000000'')
   \<and> Inr (Str ''1000000000'') \<noteq> (Inr (Num (Fin 0 0)) :: jserror + jsval)"
  by (simp add: getPrice_def processGasPriceOptions_def example_constants_def initial_state_def)

text \<open>
  C9. \<open>gasPriceWithinLimits\<close> is a function of its argument and the two bounds alone, and
  with the bounds in order, for every number (\<^verbatim>\<open>NaN\<close> and the infinities included): a value
  below the minimum gives the minimum, a value above the maximum gives the maximum, and a
  value between the two is returned as it is. On a number the function never throws. The
  same three cases hold for any other value that \<^verbatim>\<open>ToNumber\<close> converts without throwing,
  compared by the number it converts to.
\<close>

theorem gasPriceWithinLimits_clamps:
  assumes "num_le (GAS_PRICE_BOUNDARIES_MIN K) (GAS_PRICE_BOUNDARIES_MAX K)"
  shows "(num_lt v (GAS_PRICE_BOUNDARIES_MIN K)
            \<longrightarrow> gasPriceWithinLimits K (PNum v) = Inr (PNum (GAS_PRICE_BOUNDARIES_MIN K)))
       \<and> (num_gt v (GAS_PRICE_BOUNDARIES_MAX K)
            \<longrightarrow> gasPriceWithinLimits K (PNum v) = Inr (PNum (GAS_PRICE_BOUNDARIES_MAX K)))
       \<and> (num_le (GAS_PRICE_BOUNDARIES_MIN K) v \<and> num_le v (GAS_PRICE_BOUNDARIES_MAX K)
            \<longrightarrow> gasPriceWithinLimits K (PNum v) = Inr (PNum v))
       \<and> (prop_ToNumber x = Inr a \<longrightarrow>
            (num_lt a (GAS_PRICE_BOUNDARIES_MIN K)
               \<longrightarrow> gasPriceWithinLimits K x = Inr (PNum (GAS_PRICE_BOUNDARIES_MIN K)))
          \<and> (num_gt a (GAS_PRICE_BOUNDARIES_MAX K)
               \<longrightarrow> gasPriceWithinLimits K x = Inr (PNum (GAS_PRICE_BOUNDARIES_MAX K)))
          \<and> (num_le (GAS_PRICE_BOUNDARIES_MIN K) a \<and> num_le a (GAS_PRICE_BOUNDARIES_MAX K)
               \<longrightarrow> gasPriceWithinLimits K x = Inr x))"
  using num_lt_chain [OF _ assms, of v] num_lt_chain [OF _ assms, of a]
  by (auto simp: gasPriceWithinLimits_def prop_lt_def prop_gt_def num_gt_def num_le_def)

theorem gasPriceWithinLimits_clamps_witness:
  "num_le (GAS_PRICE_BOUNDARIES_MIN example_constants) (GAS_PRICE_BOUNDARIES_MAX example_constants)
   \<and> num_lt (Fin 0 0) (GAS_PRICE_BOUNDARIES_MIN example_constants)
   \<and> gasPriceWithinLimits example_constants (PNum (Fin 0 0)) = Inr (PNum (Fin 1 0))
   \<and> num_gt (Fin 150 0) (GAS_PRICE_BOUNDARIES_MAX example_constants)
   \<and> gasPriceWithinLimits example_constants (PNum (Fin 150 0)) = Inr (PNum (Fin 100 0))
   \<and> num_le (GAS_PRICE_BOUNDARIES_MIN example_constants) (Fin 42 0)
   \<and> num_le (Fin 42 0) (GAS_PRICE_BOUNDARIES_MAX example_constants)
   \<and> gasPriceWithinLimits example_constants (PNum (Fin 42 0)) = Inr (PNum (Fin 42 0))
   \<and> prop_ToNumber (PStr ''42'' (Fin 42 0)) = Inr (Fin 42 0)
   \<and> gasPriceWithinLimits example_constants (PStr ''42'' (Fin 42 0)) = Inr (PStr ''42'' (Fin 42 0))"
proof -
  have h: "num_le (GAS_PRICE_BOUNDARIES_MIN example_constants)
             (GAS_PRICE_BOUNDARIES_MAX example_constants)"
    by (simp add: example_constants_def num_le_def fin_lt_def)
  show ?thesis
    using h gasPriceWithinLimits_clamps [OF h, of "Fin 0 0" PNull "Fin 0 0"]
      gasPriceWithinLimits_clamps [OF h, of "Fin 150 0" PNull "Fin 0 0"]
      gasPriceWithinLimits_clamps [OF h, of "Fin 42 0" "PStr ''42'' (Fin 42 0)" "Fin 42 0"]
    by (simp add: example_constants_def num_le_def num_gt_def fin_lt_def)
qed

text \<open>
  C10. \<open>getPrice\<close> leaves the module state as it was, its result is that of
  \<open>processGasPriceOptions\<close> on the two cached variables, and it depends on nothing else:
  two states that agree on \<open>cachedGasPrice\<close> and \<open>cachedGasPriceOracleSpeeds\<close> give the same
  result for the same request.
\<close>

theorem getPrice_read_only:
  "snd (getPrice K opts st) = st
   \<and> fst (getPrice K opts st)
       = processGasPriceOptions K opts (cachedGasPrice st) (cachedGasPriceOracleSpeeds st)
   \<and> (cachedGasPrice st = cachedGasPrice st'
        \<and> cachedGasPriceOracleSpeeds st = cachedGasPriceOracleSpeeds st'
      \<longrightarrow> fst (getPrice K opts st) = fst (getPrice K opts st'))"
  by (simp add: getPrice_def)

theorem getPrice_read_only_witness:
  "snd (getPrice example_constants None (initial_state\<lparr>cachedGasPrice := Str ''1000000000''\<rparr>))
     = initial_state\<lparr>cachedGasPrice := Str ''1000000000''\<rparr>
   \<and> fst (getPrice example_constants None (initial_state\<lparr>cachedGasPrice := Str ''1000000000''\<rparr>))
     = fst (getPrice example_constants None
              (initial_state\<lparr>cachedGasPrice := Str ''1000000000'',
                              timers := [(0, home_task)], next_handle := 1\<rparr>))"
proof -
  let ?st = "initial_state\<lparr>cachedGasPrice := Str ''1000000000''\<rparr>"
  let ?st' = "initial_state\<lparr>cachedGasPrice := Str ''1000000000'',
                             timers := [(0, home_task)], next_handle := 1\<rparr>"
  have same: "cachedGasPrice ?st = cachedGasPrice ?st'
              \<and> cachedGasPriceOracleSpeeds ?st = cachedGasPriceOracleSpeeds ?st'"
    by simp
  from getPrice_read_only [of example_constants None ?st ?st'] same
  show ?thesis by blast
qed

end
